theory Spec2Isabelle
  imports Main "HOL-Library.AList"
begin

section \<open>Values received from clients\<close>

text \<open>
  Socket.IO hands the handlers of \<^verbatim>\<open>src/config/socket.js\<close> whatever JSON value the client
  sent, or \<^verbatim>\<open>undefined\<close> when the client sent nothing. The handlers use such a value in
  four ways: truthiness (\<^verbatim>\<open>!authHeader\<close>), string interpolation in a template literal,
  property access (the destructuring \<^verbatim>\<open>({ roomId })\<close>) and as a room key. Numbers and
  arrays are not part of this model of payload values.
\<close>

datatype js_value =
    JUndefined
  | JNull
  | JBool bool
  | JStr string
  | JObj "(string \<times> js_value) list"

text \<open>\<^verbatim>\<open>!v\<close> in JavaScript.\<close>

fun falsy :: "js_value \<Rightarrow> bool" where
  "falsy JUndefined = True"
| "falsy JNull = True"
| "falsy (JBool b) = (\<not> b)"
| "falsy (JStr s) = (s = [])"
| "falsy (JObj fs) = False"

datatype error =
    Error string "nat option"
  | TypeError string
  | ValidationError string

text \<open>\<^verbatim>\<open>e.message\<close>\<close>

fun error_message :: "error \<Rightarrow> string" where
  "error_message (Error m c) = m"
| "error_message (TypeError m) = m"
| "error_message (ValidationError m) = m"

text \<open>
  The coercion of a template literal \<^verbatim>\<open>`${v}`\<close>. An object is converted through its
  \<^verbatim>\<open>toString\<close>: a JSON object inherits the one that gives \<^verbatim>\<open>[object Object]\<close>, unless
  it has a property of its own named \<^verbatim>\<open>toString\<close>. Such a property holds a JSON value,
  which cannot be called, and the inherited \<^verbatim>\<open>valueOf\<close> returns the object itself:
  the coercion throws a \<^verbatim>\<open>TypeError\<close>. An operand of a subtraction is converted to
  a number along the same two methods and throws on the same objects.
\<close>

fun js_to_string :: "js_value \<Rightarrow> error + string" where
  "js_to_string JUndefined = Inr ''undefined''"
| "js_to_string JNull = Inr ''null''"
| "js_to_string (JBool b) = Inr (if b then ''true'' else ''false'')"
| "js_to_string (JStr s) = Inr s"
| "js_to_string (JObj fs) =
     (if ''toString'' \<in> fst ` set fs
      then Inl (TypeError ''Cannot convert object to primitive value'')
      else Inr ''[object Object]'')"

text \<open>
  Reading property \<open>k\<close> of a value, as the parameter destructuring \<^verbatim>\<open>({ k })\<close> does:
  a \<^verbatim>\<open>TypeError\<close> on \<^verbatim>\<open>undefined\<close> and \<^verbatim>\<open>null\<close>, the field of an object, and
  \<^verbatim>\<open>undefined\<close> for a missing field or a primitive.
\<close>

fun destructure :: "string \<Rightarrow> js_value \<Rightarrow> error + js_value" where
  "destructure k JUndefined =
     Inl (TypeError (''Cannot destructure property '' @ k @ '' of undefined''))"
| "destructure k JNull =
     Inl (TypeError (''Cannot destructure property '' @ k @ '' of null''))"
| "destructure k (JObj fs) =
     Inr (case map_of fs k of None \<Rightarrow> JUndefined | Some v \<Rightarrow> v)"
| "destructure k (JBool b) = Inr JUndefined"
| "destructure k (JStr s) = Inr JUndefined"

text \<open>Optional chaining \<^verbatim>\<open>v?.k\<close>: \<^verbatim>\<open>undefined\<close> where the destructuring throws.\<close>

definition optional_chain :: "js_value \<Rightarrow> string \<Rightarrow> js_value" where
  "optional_chain v k = (case destructure k v of Inl e \<Rightarrow> JUndefined | Inr x \<Rightarrow> x)"

section \<open>The online users registry\<close>

text \<open>
  \<^verbatim>\<open>const onlineUsers = new Map()\<close> maps a socket id to \<^verbatim>\<open>{ userId, name }\<close>. A JavaScript
  \<^verbatim>\<open>Map\<close> keeps insertion order, \<^verbatim>\<open>set\<close> on a key already present replaces the value in
  place, and \<^verbatim>\<open>delete\<close> on an absent key does nothing: an association list with
  \<^const>\<open>AList.update\<close> and \<^const>\<open>AList.delete\<close>.
\<close>

type_synonym socket_id = string

record online_entry =
  userId :: js_value
  name :: js_value

type_synonym registry = "(socket_id \<times> online_entry) list"

text \<open>\<^verbatim>\<open>onlineUsers.set(socket.id, { userId, name: userName })\<close>\<close>

definition register :: "socket_id \<Rightarrow> online_entry \<Rightarrow> registry \<Rightarrow> registry" where
  "register sid e reg = AList.update sid e reg"

text \<open>\<^verbatim>\<open>onlineUsers.delete(socket.id)\<close>\<close>

definition deregister :: "socket_id \<Rightarrow> registry \<Rightarrow> registry" where
  "deregister sid reg = AList.delete sid reg"

text \<open>\<^verbatim>\<open>Array.from(onlineUsers.values())\<close>\<close>

definition listOnline :: "registry \<Rightarrow> online_entry list" where
  "listOnline reg = map snd reg"

subsection \<open>Sequences of calls\<close>

datatype reg_op = Register socket_id online_entry | Deregister socket_id

fun apply_reg_op :: "registry \<Rightarrow> reg_op \<Rightarrow> registry" where
  "apply_reg_op reg (Register sid e) = register sid e reg"
| "apply_reg_op reg (Deregister sid) = deregister sid reg"

definition run_reg_ops :: "reg_op list \<Rightarrow> registry \<Rightarrow> registry" where
  "run_reg_ops ops reg = foldl apply_reg_op reg ops"

text \<open>
  Connection identifiers are unique when every \<open>Register\<close> call carries an identifier
  that no earlier call of the sequence has used: the transport hands out a fresh
  identifier for each connection and never reuses one. \<open>seen\<close> holds the identifiers
  used so far.
\<close>

fun unique_ids :: "socket_id list \<Rightarrow> reg_op list \<Rightarrow> bool" where
  "unique_ids seen [] = True"
| "unique_ids seen (Register sid e # ops) =
     (sid \<notin> set seen \<and> unique_ids (sid # seen) ops)"
| "unique_ids seen (Deregister sid # ops) = unique_ids (sid # seen) ops"

text \<open>The specification's side: the registered entries minus those deregistered.\<close>

fun registered :: "reg_op list \<Rightarrow> (socket_id \<times> online_entry) list" where
  "registered [] = []"
| "registered (Register sid e # ops) = (sid, e) # registered ops"
| "registered (Deregister sid # ops) = registered ops"

fun deregistered :: "reg_op list \<Rightarrow> socket_id list" where
  "deregistered [] = []"
| "deregistered (Register sid e # ops) = deregistered ops"
| "deregistered (Deregister sid # ops) = sid # deregistered ops"

definition registered_minus_deregistered ::
  "reg_op list \<Rightarrow> (socket_id \<times> online_entry) list" where
  "registered_minus_deregistered ops =
     filter (\<lambda>(sid, e). sid \<notin> set (deregistered ops)) (registered ops)"

section \<open>Documents of the store\<close>

text \<open>
  The Mongoose models of \<^verbatim>\<open>src/models\<close>, with the fields the services read or write.
  Object ids are strings (their hexadecimal form, which is what a template literal
  interpolates). Timestamps and the \<^verbatim>\<open>_id\<close> of a created document are left out.
\<close>

type_synonym task_id = string
type_synonym project_id = string
type_synonym user_id = string

record task =
  title :: string
  status :: string
  project :: project_id
  createdBy :: user_id
  assignedTo :: "user_id option"

text \<open>The project of a task after \<^verbatim>\<open>.populate("project", "title _id")\<close>.\<close>

record project_ref =
  ref_id :: project_id
  ref_title :: string

text \<open>
  A task document as a query returns it: its id, its fields, and the populated project,
  \<open>None\<close> when the project it refers to is not in the store (Mongoose populates a
  dangling reference with \<^verbatim>\<open>null\<close>).
\<close>

record task_doc =
  doc_id :: task_id
  doc_task :: task
  doc_project :: "project_ref option"

record comment =
  commentId :: nat
  content :: string
  comment_task :: task_id
  author :: user_id

record notification =
  notificationId :: nat
  message :: string
  ntype :: string
  recipient :: user_id
  relatedTask :: "task_id option"
  relatedProject :: "project_id option"
  isRead :: bool

text \<open>\<^verbatim>\<open>req.user\<close>, of which the services read \<^verbatim>\<open>name\<close>.\<close>

record user_doc =
  user_id :: user_id
  user_name :: string

section \<open>The Socket.IO server\<close>

text \<open>
  The payload that \<^verbatim>\<open>jwt.verify\<close> decodes; \<^verbatim>\<open>socket.user\<close>. It is what this server
  signed (\<^verbatim>\<open>jwt.sign({ id: userId }, ...)\<close>): a client chooses none of it, and the
  interpolation of \<^verbatim>\<open>id\<close> and \<^verbatim>\<open>name\<close> in the log lines is not a source of errors.
\<close>

record decoded =
  decoded_id :: js_value
  decoded_name :: js_value

datatype out_event =
    OnlineUsers "online_entry list"
  | Ping nat
  | UserTyping js_value js_value js_value
  | UserStoppedTyping js_value js_value
  | TaskUpdated task_id string string task_doc
  | CommentNew task_id comment
  | NotificationNew notification

text \<open>The name under which each event is emitted.\<close>

fun event_name :: "out_event \<Rightarrow> string" where
  "event_name (OnlineUsers us) = ''onlineUsers''"
| "event_name (Ping t) = ''ping''"
| "event_name (UserTyping u n r) = ''userTyping''"
| "event_name (UserStoppedTyping u r) = ''userStoppedTyping''"
| "event_name (TaskUpdated t s b d) = ''task:updated''"
| "event_name (CommentNew t c) = ''comment:new''"
| "event_name (NotificationNew n) = ''notification:new''"

text \<open>
  One constructor for each call of \<^verbatim>\<open>logger.socket\<close> and \<^verbatim>\<open>logger.error\<close> in
  \<^verbatim>\<open>socket.js\<close>, carrying the values its message interpolates.
\<close>

datatype log_entry =
    LogOnlineBroadcast nat
  | LogRejectedNoToken string
  | LogAuthenticated js_value socket_id
  | LogRejectedInvalid string
  | LogConnected js_value js_value socket_id
  | LogHeartbeatPing js_value socket_id
  | LogHeartbeatPong js_value js_value nat
  | LogJoinRoom js_value string
  | LogLeaveRoom js_value string
  | LogJoinPersonal js_value string
  | LogLeavePersonal js_value string
  | LogTypingStarted js_value js_value
  | LogTypingStopped js_value js_value
  | LogSocketError js_value socket_id string
  | LogDisconnected js_value socket_id string

text \<open>
  A connected socket: the decoded token the middleware attached to it, and the rooms it
  is in. The server: the sockets of the namespace (a \<^verbatim>\<open>Map\<close> from socket id), the
  module's \<^verbatim>\<open>onlineUsers\<close>, the sockets whose heartbeat interval is running, every
  delivery made so far (receiving socket and event, oldest first) and the log.
\<close>

record socket =
  user :: decoded
  rooms :: "string set"

record server =
  sockets :: "(socket_id \<times> socket) list"
  onlineUsers :: registry
  heartbeats :: "socket_id list"
  outbox :: "(socket_id \<times> out_event) list"
  logs :: "log_entry list"

definition initSocket :: server where
  "initSocket = \<lparr>sockets = [], onlineUsers = [], heartbeats = [], outbox = [], logs = []\<rparr>"

definition logger :: "log_entry \<Rightarrow> server \<Rightarrow> server" where
  "logger l s = s\<lparr>logs := logs s @ [l]\<rparr>"

subsection \<open>The library's operations\<close>

text \<open>
  Socket.IO is a library outside the repository; these definitions follow its documented
  contract. \<^verbatim>\<open>io.emit\<close> delivers to every connected socket, \<^verbatim>\<open>io.to(room).emit\<close> to
  every socket in the room, \<^verbatim>\<open>socket.to(room).emit\<close> to every socket in the room except
  the sender, \<^verbatim>\<open>socket.emit\<close> to the socket itself. \<^verbatim>\<open>socket.join\<close> and
  \<^verbatim>\<open>socket.leave\<close> add and remove a room name in the socket's set of rooms. Rooms are
  named by strings: a room key that is not a string is the name of no room.
\<close>

definition io_emit :: "out_event \<Rightarrow> server \<Rightarrow> server" where
  "io_emit ev s = s\<lparr>outbox := outbox s @ map (\<lambda>p. (fst p, ev)) (sockets s)\<rparr>"

definition room_members :: "string \<Rightarrow> server \<Rightarrow> socket_id list" where
  "room_members room s = map fst (filter (\<lambda>p. room \<in> rooms (snd p)) (sockets s))"

definition io_to_emit :: "string \<Rightarrow> out_event \<Rightarrow> server \<Rightarrow> server" where
  "io_to_emit room ev s =
     s\<lparr>outbox := outbox s @ map (\<lambda>i. (i, ev)) (room_members room s)\<rparr>"

fun socket_to_members :: "socket_id \<Rightarrow> js_value \<Rightarrow> server \<Rightarrow> socket_id list" where
  "socket_to_members sid (JStr room) s = filter (\<lambda>i. i \<noteq> sid) (room_members room s)"
| "socket_to_members sid JUndefined s = []"
| "socket_to_members sid JNull s = []"
| "socket_to_members sid (JBool b) s = []"
| "socket_to_members sid (JObj fs) s = []"

definition socket_to_emit :: "socket_id \<Rightarrow> js_value \<Rightarrow> out_event \<Rightarrow> server \<Rightarrow> server" where
  "socket_to_emit sid room ev s =
     s\<lparr>outbox := outbox s @ map (\<lambda>i. (i, ev)) (socket_to_members sid room s)\<rparr>"

definition socket_emit :: "socket_id \<Rightarrow> out_event \<Rightarrow> server \<Rightarrow> server" where
  "socket_emit sid ev s =
     (if sid \<in> fst ` set (sockets s) then s\<lparr>outbox := outbox s @ [(sid, ev)]\<rparr> else s)"

definition update_rooms :: "socket_id \<Rightarrow> (string set \<Rightarrow> string set) \<Rightarrow> server \<Rightarrow> server" where
  "update_rooms sid f s =
     s\<lparr>sockets := map (\<lambda>p. if fst p = sid then (fst p, (snd p)\<lparr>rooms := f (rooms (snd p))\<rparr>)
                               else p) (sockets s)\<rparr>"

definition socket_join :: "socket_id \<Rightarrow> string \<Rightarrow> server \<Rightarrow> server" where
  "socket_join sid room s = update_rooms sid (insert room) s"

definition socket_leave :: "socket_id \<Rightarrow> string \<Rightarrow> server \<Rightarrow> server" where
  "socket_leave sid room s = update_rooms sid (\<lambda>rs. rs - {room}) s"

text \<open>The rooms a socket is in; none when it is not connected.\<close>

definition rooms_of :: "socket_id \<Rightarrow> server \<Rightarrow> string set" where
  "rooms_of sid s = (case map_of (sockets s) sid of None \<Rightarrow> {} | Some sk \<Rightarrow> rooms sk)"

definition connected :: "socket_id \<Rightarrow> server \<Rightarrow> bool" where
  "connected sid s = (sid \<in> fst ` set (sockets s))"

subsection \<open>The authentication middleware\<close>

text \<open>\<^verbatim>\<open>authHeader.split(" ")\<close>\<close>

fun split_space :: "string \<Rightarrow> string list" where
  "split_space [] = [[]]"
| "split_space (c # cs) =
     (if c = CHR '' '' then [] # split_space cs
      else (case split_space cs of [] \<Rightarrow> [[c]] | w # ws \<Rightarrow> (c # w) # ws))"

text \<open>
  \<^verbatim>\<open>authHeader.startsWith("Bearer ") ? authHeader.split(" ")[1] : authHeader\<close>; the second
  segment exists whenever the prefix is there.
\<close>

definition bearer_token :: "string \<Rightarrow> string" where
  "bearer_token authHeader =
     (if take 7 authHeader = ''Bearer ''
      then (case split_space authHeader of a # t # ts \<Rightarrow> t | _ \<Rightarrow> [])
      else authHeader)"

text \<open>
  The middleware \<^verbatim>\<open>io.use\<close>. \<open>verify\<close> stands for
  \<^verbatim>\<open>jwt.verify(token, process.env.JWT_SECRET)\<close>, which throws on a malformed, expired or
  wrongly signed token. The result is the line logged and either the error passed to
  \<^verbatim>\<open>next\<close> (the socket is rejected) or the decoded payload to attach to the socket.
  A truthy token that is not a string has no \<^verbatim>\<open>startsWith\<close>: the \<^verbatim>\<open>TypeError\<close> lands in
  the \<^verbatim>\<open>catch\<close>.
\<close>

definition authenticate ::
  "(string \<Rightarrow> error + decoded) \<Rightarrow> socket_id \<Rightarrow> string \<Rightarrow> js_value \<Rightarrow> log_entry \<times> (error + decoded)" where
  "authenticate verify sid address authHeader =
     (if falsy authHeader
      then (LogRejectedNoToken address,
            Inl (Error ''Authentication token required. Please login first.'' None))
      else (case (case authHeader of
                    JStr h \<Rightarrow> verify (bearer_token h)
                  | _ \<Rightarrow> Inl (TypeError ''authHeader.startsWith is not a function'')) of
              Inr d \<Rightarrow> (LogAuthenticated (decoded_id d) sid, Inr d)
            | Inl e \<Rightarrow> (LogRejectedInvalid (error_message e),
                        Inl (Error ''Invalid or expired token. Please login again.'' None))))"

subsection \<open>The connection handler and the listeners it installs\<close>

definition broadcastOnlineUsers :: "server \<Rightarrow> server" where
  "broadcastOnlineUsers s =
     (let userList = listOnline (onlineUsers s)
      in logger (LogOnlineBroadcast (length userList)) (io_emit (OnlineUsers userList) s))"

text \<open>
  \<^verbatim>\<open>io.on("connection", ...)\<close>, up to the installation of the listeners: log, register,
  broadcast, start the heartbeat interval.
\<close>

definition on_connection :: "socket_id \<Rightarrow> decoded \<Rightarrow> server \<Rightarrow> server" where
  "on_connection sid u s =
     (let s1 = logger (LogConnected (decoded_id u) (decoded_name u) sid) s;
          s2 = s1\<lparr>onlineUsers :=
                    register sid \<lparr>userId = decoded_id u, name = decoded_name u\<rparr> (onlineUsers s1)\<rparr>;
          s3 = broadcastOnlineUsers s2
      in s3\<lparr>heartbeats := List.insert sid (heartbeats s3)\<rparr>)"

text \<open>
  A handshake: the middleware runs first. When it rejects, Socket.IO refuses the
  connection and nothing but the log changes. When it accepts, Socket.IO adds the socket
  to the namespace, in the room named by its own id, and fires \<^verbatim>\<open>connection\<close>.
\<close>

definition handshake ::
  "(string \<Rightarrow> error + decoded) \<Rightarrow> socket_id \<Rightarrow> string \<Rightarrow> js_value \<Rightarrow> server \<Rightarrow> server" where
  "handshake verify sid address authHeader s =
     (case authenticate verify sid address authHeader of
        (l, Inl e) \<Rightarrow> logger l s
      | (l, Inr u) \<Rightarrow>
          on_connection sid u
            ((logger l s)\<lparr>sockets := AList.update sid \<lparr>user = u, rooms = {sid}\<rparr> (sockets s)\<rparr>))"

text \<open>
  The room listeners build the room name with a template literal first: when the
  interpolation of the payload throws, nothing has been joined, left or logged.
\<close>

definition on_joinProject :: "socket_id \<Rightarrow> decoded \<Rightarrow> js_value \<Rightarrow> server \<Rightarrow> error + server" where
  "on_joinProject sid u projectId s =
     (case js_to_string projectId of
        Inl e \<Rightarrow> Inl e
      | Inr str \<Rightarrow>
          (let room = ''project:'' @ str
           in Inr (logger (LogJoinRoom (decoded_id u) room) (socket_join sid room s))))"

definition on_leaveProject :: "socket_id \<Rightarrow> decoded \<Rightarrow> js_value \<Rightarrow> server \<Rightarrow> error + server" where
  "on_leaveProject sid u projectId s =
     (case js_to_string projectId of
        Inl e \<Rightarrow> Inl e
      | Inr str \<Rightarrow>
          (let room = ''project:'' @ str
           in Inr (logger (LogLeaveRoom (decoded_id u) room) (socket_leave sid room s))))"

definition on_joinUser :: "socket_id \<Rightarrow> decoded \<Rightarrow> js_value \<Rightarrow> server \<Rightarrow> error + server" where
  "on_joinUser sid u targetUserId s =
     (case js_to_string targetUserId of
        Inl e \<Rightarrow> Inl e
      | Inr str \<Rightarrow>
          (let room = ''user:'' @ str
           in Inr (logger (LogJoinPersonal (decoded_id u) room) (socket_join sid room s))))"

definition on_leaveUser :: "socket_id \<Rightarrow> decoded \<Rightarrow> js_value \<Rightarrow> server \<Rightarrow> error + server" where
  "on_leaveUser sid u targetUserId s =
     (case js_to_string targetUserId of
        Inl e \<Rightarrow> Inl e
      | Inr str \<Rightarrow>
          (let room = ''user:'' @ str
           in Inr (logger (LogLeavePersonal (decoded_id u) room) (socket_leave sid room s))))"

text \<open>
  The typing listeners destructure their argument in the parameter list, before anything
  else runs: with no argument (or \<^verbatim>\<open>null\<close>) the listener throws. The log line
  interpolates \<^verbatim>\<open>roomId\<close> before the emit.
\<close>

definition on_startTyping :: "socket_id \<Rightarrow> decoded \<Rightarrow> js_value \<Rightarrow> server \<Rightarrow> error + server" where
  "on_startTyping sid u payload s =
     (case destructure ''roomId'' payload of
        Inl e \<Rightarrow> Inl e
      | Inr roomId \<Rightarrow>
          (case js_to_string roomId of
             Inl e \<Rightarrow> Inl e
           | Inr str \<Rightarrow>
               Inr (socket_to_emit sid roomId
                      (UserTyping (decoded_id u) (decoded_name u) roomId)
                      (logger (LogTypingStarted (decoded_id u) roomId) s))))"

definition on_stopTyping :: "socket_id \<Rightarrow> decoded \<Rightarrow> js_value \<Rightarrow> server \<Rightarrow> error + server" where
  "on_stopTyping sid u payload s =
     (case destructure ''roomId'' payload of
        Inl e \<Rightarrow> Inl e
      | Inr roomId \<Rightarrow>
          (case js_to_string roomId of
             Inl e \<Rightarrow> Inl e
           | Inr str \<Rightarrow>
               Inr (socket_to_emit sid roomId (UserStoppedTyping (decoded_id u) roomId)
                      (logger (LogTypingStopped (decoded_id u) roomId) s))))"

text \<open>
  The \<^verbatim>\<open>pong\<close> listener logs \<^verbatim>\<open>Date.now() - (data?.timestamp || Date.now())\<close>: a truthy
  timestamp is converted to a number.
\<close>

definition on_pong :: "decoded \<Rightarrow> js_value \<Rightarrow> nat \<Rightarrow> server \<Rightarrow> error + server" where
  "on_pong u data now s =
     (let timestamp = optional_chain data ''timestamp''
      in (case (if falsy timestamp then Inr [] else js_to_string timestamp) of
            Inl e \<Rightarrow> Inl e
          | Inr str \<Rightarrow> Inr (logger (LogHeartbeatPong (decoded_id u) data now) s)))"

definition on_error :: "socket_id \<Rightarrow> decoded \<Rightarrow> string \<Rightarrow> server \<Rightarrow> server" where
  "on_error sid u msg s = logger (LogSocketError (decoded_id u) sid msg) s"

text \<open>The callback of \<^verbatim>\<open>setInterval\<close>, every 30 seconds while the interval runs.\<close>

definition heartbeat :: "socket_id \<Rightarrow> decoded \<Rightarrow> nat \<Rightarrow> server \<Rightarrow> server" where
  "heartbeat sid u now s =
     logger (LogHeartbeatPing (decoded_id u) sid) (socket_emit sid (Ping now) s)"

text \<open>
  The \<^verbatim>\<open>disconnect\<close> listener: stop the interval, remove the socket from the registry,
  log, broadcast.
\<close>

definition on_disconnect :: "socket_id \<Rightarrow> decoded \<Rightarrow> string \<Rightarrow> server \<Rightarrow> server" where
  "on_disconnect sid u reason s =
     (let s1 = s\<lparr>heartbeats := removeAll sid (heartbeats s)\<rparr>;
          s2 = s1\<lparr>onlineUsers := deregister sid (onlineUsers s1)\<rparr>;
          s3 = logger (LogDisconnected (decoded_id u) sid reason) s2
      in broadcastOnlineUsers s3)"

subsection \<open>Dispatch\<close>

text \<open>
  What a client can send on a connected socket. \<open>OtherEvent\<close> is an event under a name
  for which \<^verbatim>\<open>socket.js\<close> installs no listener.
\<close>

datatype client_event =
    JoinProject js_value
  | LeaveProject js_value
  | JoinUser js_value
  | LeaveUser js_value
  | StartTyping js_value
  | StopTyping js_value
  | Pong js_value nat
  | SocketError string
  | OtherEvent string js_value

fun dispatch :: "socket_id \<Rightarrow> decoded \<Rightarrow> client_event \<Rightarrow> server \<Rightarrow> error + server" where
  "dispatch sid u (JoinProject v) s = on_joinProject sid u v s"
| "dispatch sid u (LeaveProject v) s = on_leaveProject sid u v s"
| "dispatch sid u (JoinUser v) s = on_joinUser sid u v s"
| "dispatch sid u (LeaveUser v) s = on_leaveUser sid u v s"
| "dispatch sid u (StartTyping v) s = on_startTyping sid u v s"
| "dispatch sid u (StopTyping v) s = on_stopTyping sid u v s"
| "dispatch sid u (Pong v now) s = on_pong u v now s"
| "dispatch sid u (SocketError msg) s = Inr (on_error sid u msg s)"
| "dispatch sid u (OtherEvent n v) s = Inr s"

datatype event =
    Handshake socket_id string js_value
  | FromClient socket_id client_event
  | Disconnect socket_id string
  | HeartbeatTimer socket_id nat

text \<open>
  One event of the server. Listeners exist only on connected sockets, so an event for a
  socket that is not connected reaches no code. On a disconnect Socket.IO takes the
  socket out of the namespace, and with it out of every room, before the listener runs.
  \<open>Inl\<close> is an exception that leaves a listener uncaught.
\<close>

fun step :: "(string \<Rightarrow> error + decoded) \<Rightarrow> event \<Rightarrow> server \<Rightarrow> error + server" where
  "step verify (Handshake sid address authHeader) s =
     Inr (handshake verify sid address authHeader s)"
| "step verify (FromClient sid ev) s =
     (case map_of (sockets s) sid of
        None \<Rightarrow> Inr s
      | Some sk \<Rightarrow> dispatch sid (user sk) ev s)"
| "step verify (Disconnect sid reason) s =
     (case map_of (sockets s) sid of
        None \<Rightarrow> Inr s
      | Some sk \<Rightarrow>
          Inr (on_disconnect sid (user sk) reason
                 (s\<lparr>sockets := AList.delete sid (sockets s)\<rparr>)))"
| "step verify (HeartbeatTimer sid now) s =
     (case map_of (sockets s) sid of
        None \<Rightarrow> Inr s
      | Some sk \<Rightarrow>
          Inr (if sid \<in> set (heartbeats s) then heartbeat sid (user sk) now s else s))"

text \<open>
  A run of the server over a sequence of events. An exception that escapes a listener
  is thrown before the listener has changed anything, so the server's state after it is
  the state before; what the process does with the exception lies outside this module.
\<close>

fun run :: "(string \<Rightarrow> error + decoded) \<Rightarrow> event list \<Rightarrow> server \<Rightarrow> server" where
  "run verify [] s = s"
| "run verify (ev # evs) s =
     run verify evs (case step verify ev s of Inl e \<Rightarrow> s | Inr s' \<Rightarrow> s')"

section \<open>The services\<close>

text \<open>
  What the services of \<^verbatim>\<open>tasks.service.js\<close> and \<^verbatim>\<open>comments.service.js\<close> act on: the
  collections of the document store, the counters of \<^verbatim>\<open>Counter.js\<close>, the module
  variable \<^verbatim>\<open>io\<close> of \<^verbatim>\<open>socket.js\<close> (\<open>None\<close> until \<^verbatim>\<open>initSocket\<close> has run) and
  what \<^verbatim>\<open>console.warn\<close> has printed. The store fails only where the source shows it:
  a document that is not found and a schema validator that rejects.
\<close>

record world =
  tasks :: "task_id \<rightharpoonup> task"
  projects :: "project_id \<rightharpoonup> string"
  comments :: "comment list"
  notifications :: "notification list"
  counters :: "string \<Rightarrow> nat"
  io :: "server option"
  console :: "string list"

text \<open>The persisted part of a world.\<close>

definition persisted ::
  "world \<Rightarrow> (task_id \<rightharpoonup> task) \<times> (project_id \<rightharpoonup> string) \<times> comment list \<times>
            notification list \<times> (string \<Rightarrow> nat)" where
  "persisted w = (tasks w, projects w, comments w, notifications w, counters w)"

definition getNextSequence :: "string \<Rightarrow> world \<Rightarrow> nat \<times> world" where
  "getNextSequence counter w =
     (let n = Suc (counters w counter)
      in (n, w\<lparr>counters := (counters w)(counter := n)\<rparr>))"

definition getIO :: "world \<Rightarrow> error + server" where
  "getIO w =
     (case io w of
        None \<Rightarrow> Inl (Error
          ''Socket.IO has not been initialized yet! Call initSocket(httpServer) first.'' None)
      | Some srv \<Rightarrow> Inr srv)"

text \<open>
  \<^verbatim>\<open>Project.js\<close> declares \<^verbatim>\<open>toJSON: { virtuals: true }\<close> and the virtual
  \<^verbatim>\<open>memberCount\<close>, whose getter returns \<^verbatim>\<open>this.members.length\<close>. The project that
  \<^verbatim>\<open>.populate("project", "title _id")\<close> puts into a task was selected without
  \<^verbatim>\<open>members\<close>, so on it the getter reads \<^verbatim>\<open>length\<close> of \<^verbatim>\<open>undefined\<close> and throws.
\<close>

definition memberCount :: "project_ref \<Rightarrow> error + nat" where
  "memberCount p = Inl (TypeError ''Cannot read properties of undefined (reading length)'')"

text \<open>
  Socket.IO serialises the payload inside \<^verbatim>\<open>emit\<close>, whoever is in the room, and a
  Mongoose document is serialised through its \<^verbatim>\<open>toJSON\<close>, which applies the virtuals of
  a populated project. \<open>toJSON\<close> gives the error thrown while serialising a payload, if
  any: the payload of \<^verbatim>\<open>task:updated\<close> holds the task with its populated project; the
  other payloads hold plain values and documents of schemas without virtuals.
\<close>

fun toJSON :: "out_event \<Rightarrow> error option" where
  "toJSON (TaskUpdated t st b d) =
     (case doc_project d of
        None \<Rightarrow> None
      | Some p \<Rightarrow> (case memberCount p of Inl e \<Rightarrow> Some e | Inr n \<Rightarrow> None))"
| "toJSON (OnlineUsers us) = None"
| "toJSON (Ping t) = None"
| "toJSON (UserTyping u n r) = None"
| "toJSON (UserStoppedTyping u r) = None"
| "toJSON (CommentNew t c) = None"
| "toJSON (NotificationNew n) = None"

text \<open>
  \<^verbatim>\<open>io.to(room).emit(...)\<close> as the services call it. In the services the call is a
  parameter \<open>to_emit\<close>, which may throw; \<open>io_to\<close> is the library's own behaviour:
  serialise, then deliver to the room.
\<close>

definition io_to :: "string \<Rightarrow> out_event \<Rightarrow> server \<Rightarrow> error + server" where
  "io_to room ev srv =
     (case toJSON ev of
        Some e \<Rightarrow> Inl e
      | None \<Rightarrow> Inr (io_to_emit room ev srv))"

text \<open>\<^verbatim>\<open>try { ... } catch (e) { console.warn("Socket emit failed:", e.message) }\<close>\<close>

definition catch_warn :: "error + world \<Rightarrow> world \<Rightarrow> world" where
  "catch_warn r w =
     (case r of
        Inl e \<Rightarrow> w\<lparr>console := console w @ [''Socket emit failed: '' @ error_message e]\<rparr>
      | Inr w' \<Rightarrow> w')"

definition populate_project :: "task \<Rightarrow> world \<Rightarrow> project_ref option" where
  "populate_project t w =
     (case projects w (project t) of
        None \<Rightarrow> None
      | Some ttl \<Rightarrow> Some \<lparr>ref_id = project t, ref_title = ttl\<rparr>)"

text \<open>
  \<^verbatim>\<open>Task.findByIdAndUpdate(taskId, update, { new: true }).populate("project", ...)\<close>:
  \<^verbatim>\<open>null\<close> when there is no such task, else the task as updated.
\<close>

definition Task_findByIdAndUpdate ::
  "task_id \<Rightarrow> (task \<Rightarrow> task) \<Rightarrow> world \<Rightarrow> task_doc option \<times> world" where
  "Task_findByIdAndUpdate taskId upd w =
     (case tasks w taskId of
        None \<Rightarrow> (None, w)
      | Some t \<Rightarrow>
          (let w1 = w\<lparr>tasks := (tasks w)(taskId \<mapsto> upd t)\<rparr>
           in (Some \<lparr>doc_id = taskId, doc_task = upd t,
                     doc_project = populate_project (upd t) w1\<rparr>, w1)))"

definition status_enum :: "string list" where
  "status_enum = [''todo'', ''in-progress'', ''review'', ''done'']"

definition notification_type_enum :: "string list" where
  "notification_type_enum =
     [''task_assigned'', ''task_updated'', ''comment_added'', ''project_added'']"

text \<open>
  \<^verbatim>\<open>Notification.create\<close>: the schema's validators, then the pre-save hook that draws
  \<^verbatim>\<open>notificationId\<close> from the counter, then the insertion; \<^verbatim>\<open>isRead\<close> takes its default.
\<close>

definition Notification_create ::
  "string \<Rightarrow> string \<Rightarrow> user_id \<Rightarrow> task_id option \<Rightarrow> project_id option \<Rightarrow> world \<Rightarrow>
   error + notification \<times> world" where
  "Notification_create msg ty rcpt rtask rproject w =
     (if msg = [] then Inl (ValidationError ''Path `message` is required.'')
      else if ty \<notin> set notification_type_enum
      then Inl (ValidationError ''not a valid enum value for path `type`.'')
      else (let (n, w1) = getNextSequence ''notificationId'' w;
                doc = \<lparr>notificationId = n, message = msg, ntype = ty, recipient = rcpt,
                       relatedTask = rtask, relatedProject = rproject, isRead = False\<rparr>
            in Inr (doc, w1\<lparr>notifications := notifications w1 @ [doc]\<rparr>)))"

text \<open>The schema option \<^verbatim>\<open>trim: true\<close>, on the whitespace of the 8-bit characters.\<close>

definition is_space :: "char \<Rightarrow> bool" where
  "is_space c = (c \<in> set [CHR 0x09, CHR 0x0A, CHR 0x0B, CHR 0x0C, CHR 0x0D, CHR 0x20, CHR 0xA0])"

definition trim :: "string \<Rightarrow> string" where
  "trim s = rev (dropWhile is_space (rev (dropWhile is_space s)))"

text \<open>
  \<^verbatim>\<open>Comment.create\<close>: \<^verbatim>\<open>content\<close> is trimmed, required and at most 1000 characters long;
  the pre-save hook draws \<^verbatim>\<open>commentId\<close> from the counter.
\<close>

definition Comment_create ::
  "string \<Rightarrow> task_id \<Rightarrow> user_id \<Rightarrow> world \<Rightarrow> error + comment \<times> world" where
  "Comment_create cont taskId authorId w =
     (if trim cont = [] then Inl (ValidationError ''Comment content is required'')
      else if 1000 < length (trim cont)
      then Inl (ValidationError ''Comment cannot exceed 1000 characters'')
      else (let (n, w1) = getNextSequence ''commentId'' w;
                doc = \<lparr>commentId = n, content = trim cont, comment_task = taskId,
                       author = authorId\<rparr>
            in Inr (doc, w1\<lparr>comments := comments w1 @ [doc]\<rparr>)))"

subsection \<open>The broadcast steps\<close>

text \<open>
  The bodies of the three \<^verbatim>\<open>try\<close> blocks. The emit of \<open>emit_task_updated\<close> is
  handed the task with its populated project: with the library's \<open>io_to\<close> it throws
  while serialising whenever it is reached.
\<close>

definition emit_task_updated ::
  "(string \<Rightarrow> out_event \<Rightarrow> server \<Rightarrow> error + server) \<Rightarrow> task_doc \<Rightarrow> user_doc \<Rightarrow> world \<Rightarrow>
   error + world" where
  "emit_task_updated to_emit t updatedBy w =
     (case getIO w of
        Inl e \<Rightarrow> Inl e
      | Inr srv \<Rightarrow>
          (case doc_project t of
             None \<Rightarrow> Inl (TypeError ''Cannot read properties of null (reading _id)'')
           | Some p \<Rightarrow>
               (case to_emit (''project:'' @ ref_id p)
                       (TaskUpdated (doc_id t) (status (doc_task t)) (user_name updatedBy) t) srv of
                  Inl e \<Rightarrow> Inl e
                | Inr srv' \<Rightarrow> Inr (w\<lparr>io := Some srv'\<rparr>))))"

definition emit_notification ::
  "(string \<Rightarrow> out_event \<Rightarrow> server \<Rightarrow> error + server) \<Rightarrow> user_id \<Rightarrow> notification \<Rightarrow> world \<Rightarrow>
   error + world" where
  "emit_notification to_emit assigneeId n w =
     (case getIO w of
        Inl e \<Rightarrow> Inl e
      | Inr srv \<Rightarrow>
          (case to_emit (''user:'' @ assigneeId) (NotificationNew n) srv of
             Inl e \<Rightarrow> Inl e
           | Inr srv' \<Rightarrow> Inr (w\<lparr>io := Some srv'\<rparr>)))"

definition emit_comment ::
  "(string \<Rightarrow> out_event \<Rightarrow> server \<Rightarrow> error + server) \<Rightarrow> task_id \<Rightarrow> comment \<Rightarrow> world \<Rightarrow>
   error + world" where
  "emit_comment to_emit taskId c w =
     (case tasks w taskId of
        None \<Rightarrow> Inr w
      | Some t \<Rightarrow>
          (case getIO w of
             Inl e \<Rightarrow> Inl e
           | Inr srv \<Rightarrow>
               (case to_emit (''project:'' @ project t) (CommentNew taskId c) srv of
                  Inl e \<Rightarrow> Inl e
                | Inr srv' \<Rightarrow> Inr (w\<lparr>io := Some srv'\<rparr>))))"

subsection \<open>The three operations\<close>

text \<open>
  Each returns what the caller gets (\<open>Inl\<close> is a thrown error, which the controller
  hands to the HTTP error handler) and the world it leaves behind.
\<close>

definition updateTaskStatus ::
  "(string \<Rightarrow> out_event \<Rightarrow> server \<Rightarrow> error + server) \<Rightarrow> task_id \<Rightarrow> string \<Rightarrow> user_doc \<Rightarrow>
   world \<Rightarrow> (error + task_doc) \<times> world" where
  "updateTaskStatus to_emit taskId newStatus updatedBy w =
     (if newStatus \<notin> set status_enum
      then (Inl (ValidationError ''not a valid enum value for path `status`.''), w)
      else (case Task_findByIdAndUpdate taskId (\<lambda>t. t\<lparr>status := newStatus\<rparr>) w of
              (None, w1) \<Rightarrow> (Inl (Error ''Task not found'' (Some 404)), w1)
            | (Some t, w1) \<Rightarrow>
                (Inr t, catch_warn (emit_task_updated to_emit t updatedBy w1) w1)))"

definition assignTask ::
  "(string \<Rightarrow> out_event \<Rightarrow> server \<Rightarrow> error + server) \<Rightarrow> task_id \<Rightarrow> user_id \<Rightarrow> user_doc \<Rightarrow>
   world \<Rightarrow> (error + task_doc) \<times> world" where
  "assignTask to_emit taskId assigneeId assignedBy w =
     (case Task_findByIdAndUpdate taskId (\<lambda>t. t\<lparr>assignedTo := Some assigneeId\<rparr>) w of
        (None, w1) \<Rightarrow> (Inl (Error ''Task not found'' (Some 404)), w1)
      | (Some t, w1) \<Rightarrow>
          (case doc_project t of
             None \<Rightarrow> (Inl (TypeError ''Cannot read properties of null (reading _id)''), w1)
           | Some p \<Rightarrow>
               (case Notification_create
                       (''You have been assigned to task: '' @ [CHR 0x22] @ title (doc_task t)
                          @ [CHR 0x22])
                       ''task_assigned'' assigneeId (Some taskId) (Some (ref_id p)) w1 of
                  Inl e \<Rightarrow> (Inl e, w1)
                | Inr (n, w2) \<Rightarrow>
                    (Inr t, catch_warn (emit_notification to_emit assigneeId n w2) w2))))"

definition addComment ::
  "(string \<Rightarrow> out_event \<Rightarrow> server \<Rightarrow> error + server) \<Rightarrow> task_id \<Rightarrow> string \<Rightarrow> user_id \<Rightarrow>
   world \<Rightarrow> (error + comment) \<times> world" where
  "addComment to_emit taskId cont authorId w =
     (case Comment_create cont taskId authorId w of
        Inl e \<Rightarrow> (Inl e, w)
      | Inr (c, w1) \<Rightarrow> (Inr c, catch_warn (emit_comment to_emit taskId c w1) w1))"

section \<open>Notions used by the properties\<close>

text \<open>
  The handshake's credential verification fails on a token that is missing (falsy), that
  is not a string, or that \<open>verify\<close> refuses (malformed, expired, wrong signature).
\<close>

definition verification_fails :: "(string \<Rightarrow> error + decoded) \<Rightarrow> js_value \<Rightarrow> bool" where
  "verification_fails verify authHeader =
     (falsy authHeader \<or>
      (case authHeader of JStr h \<Rightarrow> isl (verify (bearer_token h)) | _ \<Rightarrow> True))"

text \<open>Every handshake that connection \<open>sid\<close> makes in a sequence of events fails.\<close>

fun never_authenticates ::
  "(string \<Rightarrow> error + decoded) \<Rightarrow> socket_id \<Rightarrow> event list \<Rightarrow> bool" where
  "never_authenticates verify sid [] = True"
| "never_authenticates verify sid (Handshake sid' address authHeader # evs) =
     ((sid' = sid \<longrightarrow> verification_fails verify authHeader) \<and>
      never_authenticates verify sid evs)"
| "never_authenticates verify sid (FromClient sid' ev # evs) =
     never_authenticates verify sid evs"
| "never_authenticates verify sid (Disconnect sid' reason # evs) =
     never_authenticates verify sid evs"
| "never_authenticates verify sid (HeartbeatTimer sid' now # evs) =
     never_authenticates verify sid evs"

text \<open>The deliveries a step has added to the outbox.\<close>

definition delivered :: "server \<Rightarrow> server \<Rightarrow> (socket_id \<times> out_event) list" where
  "delivered s s' = drop (length (outbox s)) (outbox s')"

text \<open>
  The two topic namespaces: a join or leave event for a project room or for a personal
  room, and the room named by a payload that coerces to the string \<open>str\<close>.
\<close>

datatype namespace = ProjectRoom | UserRoom

fun join_event :: "namespace \<Rightarrow> js_value \<Rightarrow> client_event" where
  "join_event ProjectRoom v = JoinProject v"
| "join_event UserRoom v = JoinUser v"

fun leave_event :: "namespace \<Rightarrow> js_value \<Rightarrow> client_event" where
  "leave_event ProjectRoom v = LeaveProject v"
| "leave_event UserRoom v = LeaveUser v"

fun topic :: "namespace \<Rightarrow> string \<Rightarrow> string" where
  "topic ProjectRoom str = ''project:'' @ str"
| "topic UserRoom str = ''user:'' @ str"

section \<open>Example data\<close>

text \<open>
  Two users. The tokens of this repository carry only \<^verbatim>\<open>id\<close>
  (\<^verbatim>\<open>jwt.sign({ id: userId }, ...)\<close> in \<^verbatim>\<open>auth.service.js\<close>), so a decoded payload has no
  \<^verbatim>\<open>name\<close>; the second user's token is one that carries a name.
\<close>

definition userA :: decoded where
  "userA = \<lparr>decoded_id = JStr ''A'', decoded_name = JUndefined\<rparr>"

definition userB :: decoded where
  "userB = \<lparr>decoded_id = JStr ''B'', decoded_name = JStr ''Bob''\<rparr>"

definition verify_ex :: "string \<Rightarrow> error + decoded" where
  "verify_ex t =
     (if t = ''tokA'' then Inr userA
      else if t = ''tokB'' then Inr userB
      else Inl (Error ''jwt malformed'' None))"

text \<open>The server after A and then B have connected.\<close>

definition server_AB :: server where
  "server_AB =
     run verify_ex
       [Handshake ''sA'' ''10.0.0.1'' (JStr ''Bearer tokA''),
        Handshake ''sB'' ''10.0.0.2'' (JStr ''tokB'')] initSocket"

text \<open>Then both join the room of project 42.\<close>

definition server_AB_42 :: server where
  "server_AB_42 =
     run verify_ex
       [FromClient ''sA'' (JoinProject (JStr ''42'')),
        FromClient ''sB'' (JoinProject (JStr ''42''))] server_AB"

text \<open>
  The server after B has joined its personal room and both have joined the room of
  project P1.
\<close>

definition server_live :: server where
  "server_live =
     run verify_ex
       [FromClient ''sB'' (JoinUser (JStr ''B'')),
        FromClient ''sA'' (JoinProject (JStr ''P1'')),
        FromClient ''sB'' (JoinProject (JStr ''P1''))] server_AB"

text \<open>
  A store with one task in one project, that server attached; a caller; and a
  broadcaster whose every emit throws.
\<close>

definition task_T1 :: task where
  "task_T1 = \<lparr>title = ''Ship it'', status = ''todo'', project = ''P1'', createdBy = ''A'',
              assignedTo = None\<rparr>"

definition world_ex :: world where
  "world_ex = \<lparr>tasks = [''T1'' \<mapsto> task_T1], projects = [''P1'' \<mapsto> ''Launch''], comments = [],
               notifications = [], counters = (\<lambda>c. 0), io = Some server_live, console = []\<rparr>"

definition caller :: user_doc where
  "caller = \<lparr>user_id = ''A'', user_name = ''Ann''\<rparr>"


section \<open>Properties of the registry\<close>

lemma set_register_fresh:
  "sid \<notin> fst ` set reg \<Longrightarrow> set (register sid e reg) = insert (sid, e) (set reg)"
  by (induction reg) (auto simp: register_def)

lemma set_deregister: "set (deregister sid reg) = {p \<in> set reg. fst p \<noteq> sid}"
  by (induction reg) (auto simp: deregister_def)

lemma keys_register: "fst ` set (register sid e reg) = insert sid (fst ` set reg)"
  unfolding register_def by (simp add: AList.dom_update)

lemma deregister_absent: "sid \<notin> fst ` set reg \<Longrightarrow> deregister sid reg = reg"
  unfolding deregister_def by (simp add: AList.delete_id)

lemma unique_ids_registered_fresh:
  "unique_ids seen ops \<Longrightarrow> (sid, e) \<in> set (registered ops) \<Longrightarrow> sid \<notin> set seen"
  by (induction seen ops rule: unique_ids.induct) auto

lemma run_reg_ops_entries:
  "unique_ids seen ops \<Longrightarrow> fst ` set reg \<subseteq> set seen \<Longrightarrow>
   set (run_reg_ops ops reg) =
     {p \<in> set reg \<union> set (registered ops). fst p \<notin> set (deregistered ops)}"
proof (induction seen ops arbitrary: reg rule: unique_ids.induct)
  case (1 seen)
  then show ?case by (simp add: run_reg_ops_def)
next
  case (2 seen sid e ops)
  from 2 have fresh: "sid \<notin> fst ` set reg" by auto
  have keys: "fst ` set (register sid e reg) \<subseteq> set (sid # seen)"
    using 2 by (auto simp: keys_register)
  have "set (run_reg_ops ops (register sid e reg)) =
          {p \<in> set (register sid e reg) \<union> set (registered ops).
             fst p \<notin> set (deregistered ops)}"
    using 2 keys by simp
  then show ?case
    by (auto simp: run_reg_ops_def set_register_fresh [OF fresh])
next
  case (3 seen sid ops)
  have keys: "fst ` set (deregister sid reg) \<subseteq> set (sid # seen)"
    using 3 by (auto simp: set_deregister)
  have later: "\<And>e. (sid, e) \<notin> set (registered ops)"
    using 3 unique_ids_registered_fresh [of "sid # seen" ops sid] by auto
  have "set (run_reg_ops ops (deregister sid reg)) =
          {p \<in> set (deregister sid reg) \<union> set (registered ops).
             fst p \<notin> set (deregistered ops)}"
    using 3 keys by simp
  then show ?case using later
    by (auto simp: run_reg_ops_def set_deregister)
qed

text \<open>
  Claim C2. After any sequence of register and deregister calls with unique connection
  identifiers, starting from the empty registry, the set of identities that
  \<open>listOnline\<close> returns is the set of identities registered minus those deregistered
  (and so are the entries of the registry themselves); deregistering an identifier that
  is not present returns the registry as it was.
\<close>

theorem listOnline_registered_minus_deregistered:
  "(unique_ids [] ops \<longrightarrow>
      set (run_reg_ops ops []) = set (registered_minus_deregistered ops) \<and>
      set (listOnline (run_reg_ops ops [])) =
        set (map snd (registered_minus_deregistered ops))) \<and>
   (sid \<notin> fst ` set reg \<longrightarrow> deregister sid reg = reg)"
proof -
  have "set (run_reg_ops ops []) = set (registered_minus_deregistered ops)"
    if u: "unique_ids [] ops"
  proof -
    have "set (run_reg_ops ops []) =
            {p \<in> set (registered ops). fst p \<notin> set (deregistered ops)}"
      using run_reg_ops_entries [OF u, of "[]"] by simp
    also have "\<dots> = set (registered_minus_deregistered ops)"
      unfolding registered_minus_deregistered_def by (simp add: case_prod_unfold)
    finally show ?thesis .
  qed
  moreover have "sid \<notin> fst ` set reg \<longrightarrow> deregister sid reg = reg"
    using deregister_absent by blast
  ultimately show ?thesis
    unfolding listOnline_def by (metis set_map)
qed

theorem listOnline_registered_minus_deregistered_witness:
  "unique_ids []
     [Register ''s1'' \<lparr>userId = JStr ''u1'', name = JStr ''Ann''\<rparr>,
      Register ''s2'' \<lparr>userId = JStr ''u2'', name = JStr ''Bob''\<rparr>,
      Deregister ''s2'', Deregister ''s9''] \<and>
   set (listOnline (run_reg_ops
     [Register ''s1'' \<lparr>userId = JStr ''u1'', name = JStr ''Ann''\<rparr>,
      Register ''s2'' \<lparr>userId = JStr ''u2'', name = JStr ''Bob''\<rparr>,
      Deregister ''s2'', Deregister ''s9''] [])) =
     {\<lparr>userId = JStr ''u1'', name = JStr ''Ann''\<rparr>} \<and>
   ''s9'' \<notin> fst ` set [(''s1'', \<lparr>userId = JStr ''u1'', name = JStr ''Ann''\<rparr>)] \<and>
   deregister ''s9'' [(''s1'', \<lparr>userId = JStr ''u1'', name = JStr ''Ann''\<rparr>)] =
     [(''s1'', \<lparr>userId = JStr ''u1'', name = JStr ''Ann''\<rparr>)]"
  using listOnline_registered_minus_deregistered
    [of "[Register ''s1'' \<lparr>userId = JStr ''u1'', name = JStr ''Ann''\<rparr>,
      Register ''s2'' \<lparr>userId = JStr ''u2'', name = JStr ''Bob''\<rparr>,
      Deregister ''s2'', Deregister ''s9'']" "''s9''"
      "[(''s1'', \<lparr>userId = JStr ''u1'', name = JStr ''Ann''\<rparr>)]"]
  by (simp add: registered_minus_deregistered_def)

text \<open>
  Claim C5 says that registering a connection identifier that is already present fails
  with a DuplicateConnection error and leaves the existing entry in place. The code has
  no such check: \<^verbatim>\<open>onlineUsers.set\<close> returns a registry in which the new identity has
  replaced the old one.
\<close>

theorem register_duplicate_counterexample:
  "register ''s1'' \<lparr>userId = JStr ''u2'', name = JStr ''Bob''\<rparr>
     [(''s1'', \<lparr>userId = JStr ''u1'', name = JStr ''Ann''\<rparr>)] =
   [(''s1'', \<lparr>userId = JStr ''u2'', name = JStr ''Bob''\<rparr>)]"
  by (simp add: register_def)

text \<open>
  Claim C5 as amended. Registering a connection identifier that is already present
  succeeds and replaces the identity stored under it: the registry then maps the
  identifier to the new identity, every other identifier as before, and holds the same
  identifiers in the same order (still one entry for the identifier).
\<close>

theorem register_present_overwrites:
  "sid \<in> fst ` set reg \<Longrightarrow>
   map_of (register sid e reg) = (map_of reg)(sid \<mapsto> e) \<and>
   map fst (register sid e reg) = map fst reg"
  unfolding register_def by (simp add: AList.update_conv' AList.update_keys)

theorem register_present_overwrites_witness:
  "''s1'' \<in> fst ` set [(''s1'', \<lparr>userId = JStr ''u1'', name = JStr ''Ann''\<rparr>),
                       (''s2'', \<lparr>userId = JStr ''u3'', name = JStr ''Cy''\<rparr>)] \<and>
   map_of (register ''s1'' \<lparr>userId = JStr ''u2'', name = JStr ''Bob''\<rparr>
     [(''s1'', \<lparr>userId = JStr ''u1'', name = JStr ''Ann''\<rparr>),
      (''s2'', \<lparr>userId = JStr ''u3'', name = JStr ''Cy''\<rparr>)]) ''s1'' =
     Some \<lparr>userId = JStr ''u2'', name = JStr ''Bob''\<rparr> \<and>
   map fst (register ''s1'' \<lparr>userId = JStr ''u2'', name = JStr ''Bob''\<rparr>
     [(''s1'', \<lparr>userId = JStr ''u1'', name = JStr ''Ann''\<rparr>),
      (''s2'', \<lparr>userId = JStr ''u3'', name = JStr ''Cy''\<rparr>)]) = [''s1'', ''s2'']"
  using register_present_overwrites
    [of "''s1''" "[(''s1'', \<lparr>userId = JStr ''u1'', name = JStr ''Ann''\<rparr>),
      (''s2'', \<lparr>userId = JStr ''u3'', name = JStr ''Cy''\<rparr>)]"
      "\<lparr>userId = JStr ''u2'', name = JStr ''Bob''\<rparr>"]
  by simp

section \<open>Properties of the server\<close>

lemmas server_defs = logger_def io_emit_def io_to_emit_def socket_to_emit_def socket_emit_def
  update_rooms_def socket_join_def socket_leave_def broadcastOnlineUsers_def

lemmas listener_defs = on_joinProject_def on_leaveProject_def on_joinUser_def
  on_leaveUser_def on_startTyping_def on_stopTyping_def on_pong_def on_error_def

lemma authenticate_fails:
  "verification_fails verify tok \<Longrightarrow> \<exists>l e. authenticate verify sid addr tok = (l, Inl e)"
  by (cases tok) (auto simp: verification_fails_def authenticate_def isl_def split: sum.splits)

lemma authenticate_accepts:
  "\<not> verification_fails verify tok \<Longrightarrow> \<exists>l u. authenticate verify sid addr tok = (l, Inr u)"
  by (cases tok) (auto simp: verification_fails_def authenticate_def isl_def split: sum.splits)

lemma handshake_rejected:
  assumes "verification_fails verify tok"
  shows "handshake verify sid addr tok s = logger (fst (authenticate verify sid addr tok)) s"
proof -
  from authenticate_fails [OF assms, of sid addr]
  obtain l e where "authenticate verify sid addr tok = (l, Inl e)" by blast
  then show ?thesis by (simp add: handshake_def)
qed

lemma handshake_accepted:
  assumes "authenticate verify sid addr tok = (l, Inr u)"
  shows "handshake verify sid addr tok s =
           on_connection sid u
             ((logger l s)\<lparr>sockets := AList.update sid \<lparr>user = u, rooms = {sid}\<rparr> (sockets s)\<rparr>)"
  using assms by (simp add: handshake_def)

lemma on_connection_fields:
  "sockets (on_connection sid u s) = sockets s"
  "onlineUsers (on_connection sid u s) =
     register sid \<lparr>userId = decoded_id u, name = decoded_name u\<rparr> (onlineUsers s)"
  "outbox (on_connection sid u s) =
     outbox s @ map (\<lambda>p. (fst p, OnlineUsers (listOnline
       (register sid \<lparr>userId = decoded_id u, name = decoded_name u\<rparr> (onlineUsers s)))))
       (sockets s)"
  by (simp_all add: on_connection_def server_defs Let_def)

lemma on_disconnect_fields:
  "sockets (on_disconnect sid u reason s) = sockets s"
  "onlineUsers (on_disconnect sid u reason s) = deregister sid (onlineUsers s)"
  "outbox (on_disconnect sid u reason s) =
     outbox s @ map (\<lambda>p. (fst p, OnlineUsers (listOnline (deregister sid (onlineUsers s)))))
       (sockets s)"
  by (simp_all add: on_disconnect_def server_defs Let_def)

lemma dispatch_registry:
  "dispatch sid u ev s = Inr s' \<Longrightarrow> onlineUsers s' = onlineUsers s"
  by (cases ev) (auto simp: listener_defs server_defs Let_def split: sum.splits)

lemma dispatch_socket_ids:
  "dispatch sid u ev s = Inr s' \<Longrightarrow> map fst (sockets s') = map fst (sockets s)"
  by (cases ev) (auto simp: listener_defs server_defs Let_def comp_def split: sum.splits)

lemma delete_keeps_absent:
  "k \<notin> fst ` set al \<Longrightarrow> k \<notin> fst ` set (AList.delete k' al)"
  using AList.dom_delete_subset [of k' al] by blast

lemma step_keeps_absent:
  assumes allowed: "\<And>addr tok. ev = Handshake sid addr tok \<Longrightarrow> verification_fails verify tok"
    and absent: "sid \<notin> fst ` set (onlineUsers s)" "sid \<notin> fst ` set (sockets s)"
    and st: "step verify ev s = Inr s'"
  shows "sid \<notin> fst ` set (onlineUsers s') \<and> sid \<notin> fst ` set (sockets s')"
proof (cases ev)
  case (Handshake sid' addr tok)
  show ?thesis
  proof (cases "verification_fails verify tok")
    case True
    then show ?thesis
      using st absent Handshake by (auto simp: handshake_rejected logger_def)
  next
    case False
    with allowed Handshake have neq: "sid' \<noteq> sid" by auto
    from authenticate_accepts [OF False, of sid' addr]
    obtain l u where "authenticate verify sid' addr tok = (l, Inr u)" by blast
    then have s': "s' = on_connection sid' u
        ((logger l s)\<lparr>sockets := AList.update sid' \<lparr>user = u, rooms = {sid'}\<rparr> (sockets s)\<rparr>)"
      using st Handshake by (simp add: handshake_accepted)
    show ?thesis
      using absent neq unfolding s'
      by (simp add: on_connection_fields register_def AList.dom_update logger_def)
  qed
next
  case (FromClient sid' cev)
  show ?thesis
  proof (cases "map_of (sockets s) sid'")
    case None
    then show ?thesis using st absent FromClient by simp
  next
    case (Some sk)
    then have d: "dispatch sid' (user sk) cev s = Inr s'" using st FromClient by simp
    have "fst ` set (sockets s') = fst ` set (sockets s)"
      using dispatch_socket_ids [OF d] by (metis set_map)
    then show ?thesis using absent dispatch_registry [OF d] by simp
  qed
next
  case (Disconnect sid' reason)
  show ?thesis
  proof (cases "map_of (sockets s) sid'")
    case None
    then show ?thesis using st absent Disconnect by simp
  next
    case (Some sk)
    then have s': "s' = on_disconnect sid' (user sk) reason
        (s\<lparr>sockets := AList.delete sid' (sockets s)\<rparr>)"
      using st Disconnect by simp
    show ?thesis
      unfolding s' using absent
      by (simp add: on_disconnect_fields deregister_def delete_keeps_absent)
  qed
next
  case (HeartbeatTimer sid' now)
  then show ?thesis
    using st absent
    by (auto simp: heartbeat_def server_defs split: option.splits if_splits)
qed

lemma run_keeps_absent:
  "never_authenticates verify sid evs \<Longrightarrow>
   sid \<notin> fst ` set (onlineUsers s) \<Longrightarrow> sid \<notin> fst ` set (sockets s) \<Longrightarrow>
   sid \<notin> fst ` set (onlineUsers (run verify evs s)) \<and>
   sid \<notin> fst ` set (sockets (run verify evs s))"
proof (induction evs arbitrary: s)
  case Nil
  then show ?case by simp
next
  case (Cons ev evs)
  have allowed: "\<And>addr tok. ev = Handshake sid addr tok \<Longrightarrow> verification_fails verify tok"
    using Cons.prems(1) by auto
  have rest: "never_authenticates verify sid evs"
    using Cons.prems(1) by (cases ev) auto
  show ?case
  proof (cases "step verify ev s")
    case (Inl e)
    then show ?thesis using Cons.IH [OF rest Cons.prems(2,3)] by simp
  next
    case (Inr s')
    from step_keeps_absent [OF allowed Cons.prems(2,3) Inr]
    show ?thesis using Cons.IH [OF rest, of s'] Inr by simp
  qed
qed

text \<open>
  Claim C4. A handshake whose credential verification fails (a missing token, or one
  that is malformed, expired or wrongly signed, which \<open>verify\<close> refuses) is rejected:
  the step leaves the connected sockets, the registry, the heartbeats and the outbox as
  they were, so the connection never becomes active and gets no registry entry. And in
  every state the server reaches from its initial state, a connection none of whose
  handshakes verified is neither connected nor in the registry that \<open>listOnline\<close>
  reads.
\<close>

theorem rejected_handshake_never_online:
  "(verification_fails verify authHeader \<longrightarrow>
      (\<exists>s'. step verify (Handshake sid address authHeader) s = Inr s' \<and>
            sockets s' = sockets s \<and> onlineUsers s' = onlineUsers s \<and>
            heartbeats s' = heartbeats s \<and> outbox s' = outbox s)) \<and>
   (never_authenticates verify sid evs \<longrightarrow>
      map_of (onlineUsers (run verify evs initSocket)) sid = None \<and>
      map_of (sockets (run verify evs initSocket)) sid = None \<and>
      listOnline (onlineUsers (run verify evs initSocket)) =
        listOnline (deregister sid (onlineUsers (run verify evs initSocket))))"
proof -
  have a: "\<exists>s'. step verify (Handshake sid address authHeader) s = Inr s' \<and>
            sockets s' = sockets s \<and> onlineUsers s' = onlineUsers s \<and>
            heartbeats s' = heartbeats s \<and> outbox s' = outbox s"
    if "verification_fails verify authHeader"
    using that by (simp add: handshake_rejected logger_def)
  have b: "map_of (onlineUsers (run verify evs initSocket)) sid = None \<and>
      map_of (sockets (run verify evs initSocket)) sid = None \<and>
      listOnline (onlineUsers (run verify evs initSocket)) =
        listOnline (deregister sid (onlineUsers (run verify evs initSocket)))"
    if n: "never_authenticates verify sid evs"
  proof -
    have "sid \<notin> fst ` set (onlineUsers (run verify evs initSocket)) \<and>
          sid \<notin> fst ` set (sockets (run verify evs initSocket))"
      using run_keeps_absent [OF n, of initSocket] by (simp add: initSocket_def)
    then show ?thesis
      by (simp add: map_of_eq_None_iff deregister_absent)
  qed
  from a b show ?thesis by blast
qed


theorem rejected_handshake_never_online_witness:
  "verification_fails verify_ex (JStr ''Bearer forged'') \<and>
   never_authenticates verify_ex ''sX''
     [Handshake ''sA'' ''10.0.0.1'' (JStr ''Bearer tokA''),
      Handshake ''sX'' ''10.0.0.9'' (JStr ''Bearer forged''),
      FromClient ''sX'' (JoinUser (JStr ''A'')),
      Handshake ''sX'' ''10.0.0.9'' JUndefined] \<and>
   map_of (onlineUsers (run verify_ex
     [Handshake ''sA'' ''10.0.0.1'' (JStr ''Bearer tokA''),
      Handshake ''sX'' ''10.0.0.9'' (JStr ''Bearer forged''),
      FromClient ''sX'' (JoinUser (JStr ''A'')),
      Handshake ''sX'' ''10.0.0.9'' JUndefined] initSocket)) ''sX'' = None \<and>
   (\<exists>s'. step verify_ex (Handshake ''sX'' ''10.0.0.9'' (JStr ''Bearer forged'')) server_AB = Inr s' \<and>
      onlineUsers s' = onlineUsers server_AB)"
proof -
  have f: "verification_fails verify_ex (JStr ''Bearer forged'')"
    by (simp add: verification_fails_def verify_ex_def bearer_token_def)
  have n: "never_authenticates verify_ex ''sX''
     [Handshake ''sA'' ''10.0.0.1'' (JStr ''Bearer tokA''),
      Handshake ''sX'' ''10.0.0.9'' (JStr ''Bearer forged''),
      FromClient ''sX'' (JoinUser (JStr ''A'')),
      Handshake ''sX'' ''10.0.0.9'' JUndefined]"
    by (simp add: verification_fails_def verify_ex_def bearer_token_def)
  show ?thesis
    using f n rejected_handshake_never_online
      [of verify_ex "JStr ''Bearer forged''" "''sX''" "''10.0.0.9''" server_AB
        "[Handshake ''sA'' ''10.0.0.1'' (JStr ''Bearer tokA''),
      Handshake ''sX'' ''10.0.0.9'' (JStr ''Bearer forged''),
      FromClient ''sX'' (JoinUser (JStr ''A'')),
      Handshake ''sX'' ''10.0.0.9'' JUndefined]"]
    by blast
qed

lemma set_alist_delete: "set (AList.delete k al) = {p \<in> set al. fst p \<noteq> k}"
  by (auto simp: AList.delete_eq)

lemma delivered_append [simp]: "outbox s' = outbox s @ ds \<Longrightarrow> delivered s s' = ds"
  by (simp add: delivered_def)

lemma server_AB_sockets:
  "sockets server_AB =
     [(''sA'', \<lparr>user = userA, rooms = {''sA''}\<rparr>), (''sB'', \<lparr>user = userB, rooms = {''sB''}\<rparr>)]"
  "onlineUsers server_AB =
     [(''sA'', \<lparr>userId = JStr ''A'', name = JUndefined\<rparr>),
      (''sB'', \<lparr>userId = JStr ''B'', name = JStr ''Bob''\<rparr>)]"
  by (simp_all add: server_AB_def handshake_def authenticate_def verify_ex_def
      bearer_token_def on_connection_def server_defs register_def initSocket_def
      userA_def userB_def Let_def)

text \<open>
  Claim C7. Every successful register (a handshake the middleware accepts) and every
  deregister (the disconnect of a connected socket) is followed by a broadcast of the
  full \<open>listOnline\<close> snapshot of the registry as it then is, delivered once to every
  socket then connected. When B's connection \<open>sidB\<close> disconnects, every remaining
  connection receives an \<open>onlineUsers\<close> event whose payload is the registry without
  \<open>sidB\<close>'s entry; B's identity \<open>e\<close> is not in the payload unless another connection
  is registered under the same identity.
\<close>

theorem presence_change_broadcasts_snapshot:
  "(authenticate verify sid address authHeader = (l, Inr u) \<longrightarrow>
      (\<exists>s'. step verify (Handshake sid address authHeader) s = Inr s' \<and>
         onlineUsers s' =
           register sid \<lparr>userId = decoded_id u, name = decoded_name u\<rparr> (onlineUsers s) \<and>
         map_of (sockets s') sid = Some \<lparr>user = u, rooms = {sid}\<rparr> \<and>
         delivered s s' =
           map (\<lambda>i. (i, OnlineUsers (listOnline (onlineUsers s')))) (map fst (sockets s')))) \<and>
   (map_of (sockets s) sidB = Some sk \<longrightarrow>
      (\<exists>s'. step verify (Disconnect sidB reason) s = Inr s' \<and>
         onlineUsers s' = deregister sidB (onlineUsers s) \<and>
         sockets s' = AList.delete sidB (sockets s) \<and>
         delivered s s' =
           map (\<lambda>i. (i, OnlineUsers (listOnline (onlineUsers s')))) (map fst (sockets s')) \<and>
         (\<forall>a \<in> fst ` set (sockets s). a \<noteq> sidB \<longrightarrow>
            (a, OnlineUsers (listOnline (deregister sidB (onlineUsers s))))
              \<in> set (delivered s s')) \<and>
         map_of (onlineUsers s') sidB = None \<and>
         ((\<forall>p \<in> set (onlineUsers s). fst p \<noteq> sidB \<longrightarrow> snd p \<noteq> e) \<longrightarrow>
            e \<notin> set (listOnline (onlineUsers s')))))"
proof -
  have connect: "\<exists>s'. step verify (Handshake sid address authHeader) s = Inr s' \<and>
         onlineUsers s' =
           register sid \<lparr>userId = decoded_id u, name = decoded_name u\<rparr> (onlineUsers s) \<and>
         map_of (sockets s') sid = Some \<lparr>user = u, rooms = {sid}\<rparr> \<and>
         delivered s s' =
           map (\<lambda>i. (i, OnlineUsers (listOnline (onlineUsers s')))) (map fst (sockets s'))"
    if a: "authenticate verify sid address authHeader = (l, Inr u)"
    by (simp add: handshake_accepted [OF a] on_connection_fields logger_def
        AList.update_conv' comp_def)
  have disconnect: "\<exists>s'. step verify (Disconnect sidB reason) s = Inr s' \<and>
         onlineUsers s' = deregister sidB (onlineUsers s) \<and>
         sockets s' = AList.delete sidB (sockets s) \<and>
         delivered s s' =
           map (\<lambda>i. (i, OnlineUsers (listOnline (onlineUsers s')))) (map fst (sockets s')) \<and>
         (\<forall>a \<in> fst ` set (sockets s). a \<noteq> sidB \<longrightarrow>
            (a, OnlineUsers (listOnline (deregister sidB (onlineUsers s))))
              \<in> set (delivered s s')) \<and>
         map_of (onlineUsers s') sidB = None \<and>
         ((\<forall>p \<in> set (onlineUsers s). fst p \<noteq> sidB \<longrightarrow> snd p \<noteq> e) \<longrightarrow>
            e \<notin> set (listOnline (onlineUsers s')))"
    if c: "map_of (sockets s) sidB = Some sk"
  proof -
    define s' where "s' = on_disconnect sidB (user sk) reason
        (s\<lparr>sockets := AList.delete sidB (sockets s)\<rparr>)"
    have st: "step verify (Disconnect sidB reason) s = Inr s'"
      using c by (simp add: s'_def)
    have reg: "onlineUsers s' = deregister sidB (onlineUsers s)"
      and socks: "sockets s' = AList.delete sidB (sockets s)"
      by (simp_all add: s'_def on_disconnect_fields)
    have out: "outbox s' = outbox s @
        map (\<lambda>i. (i, OnlineUsers (listOnline (onlineUsers s')))) (map fst (sockets s'))"
      by (simp add: s'_def on_disconnect_fields comp_def)
    have del: "delivered s s' =
        map (\<lambda>i. (i, OnlineUsers (listOnline (onlineUsers s')))) (map fst (sockets s'))"
      using out by simp
    have remaining: "(a, OnlineUsers (listOnline (deregister sidB (onlineUsers s))))
              \<in> set (delivered s s')"
      if "a \<in> fst ` set (sockets s)" "a \<noteq> sidB" for a
    proof -
      from that have "a \<in> fst ` set (AList.delete sidB (sockets s))"
        by (force simp: set_alist_delete)
      then show ?thesis unfolding del reg socks by force
    qed
    have gone: "map_of (onlineUsers s') sidB = None"
      by (simp add: reg deregister_def AList.delete_conv')
    have excl: "e \<notin> set (listOnline (onlineUsers s'))"
      if "\<forall>p \<in> set (onlineUsers s). fst p \<noteq> sidB \<longrightarrow> snd p \<noteq> e"
      using that by (auto simp: reg listOnline_def set_deregister)
    from st reg socks del remaining gone excl show ?thesis by blast
  qed
  from connect disconnect show ?thesis by blast
qed

theorem presence_change_broadcasts_snapshot_witness:
  "authenticate verify_ex ''sB'' ''10.0.0.2'' (JStr ''tokB'') =
     (LogAuthenticated (JStr ''B'') ''sB'', Inr userB) \<and>
   map_of (sockets server_AB) ''sB'' = Some \<lparr>user = userB, rooms = {''sB''}\<rparr> \<and>
   ''sA'' \<in> fst ` set (sockets server_AB) \<and>
   onlineUsers server_AB =
     [(''sA'', \<lparr>userId = JStr ''A'', name = JUndefined\<rparr>),
      (''sB'', \<lparr>userId = JStr ''B'', name = JStr ''Bob''\<rparr>)] \<and>
   (\<exists>s'. step verify_ex (Handshake ''sB'' ''10.0.0.2'' (JStr ''tokB'')) server_AB = Inr s' \<and>
      delivered server_AB s' =
        map (\<lambda>i. (i, OnlineUsers (listOnline (onlineUsers s')))) (map fst (sockets s'))) \<and>
   (\<exists>s'. step verify_ex (Disconnect ''sB'' ''transport close'') server_AB = Inr s' \<and>
      (''sA'', OnlineUsers [\<lparr>userId = JStr ''A'', name = JUndefined\<rparr>]) \<in> set (delivered server_AB s') \<and>
      \<lparr>userId = JStr ''B'', name = JStr ''Bob''\<rparr> \<notin> set (listOnline (onlineUsers s')))"
proof -
  have a: "authenticate verify_ex ''sB'' ''10.0.0.2'' (JStr ''tokB'') =
     (LogAuthenticated (JStr ''B'') ''sB'', Inr userB)"
    by (simp add: authenticate_def verify_ex_def bearer_token_def userB_def)
  have c: "map_of (sockets server_AB) ''sB'' = Some \<lparr>user = userB, rooms = {''sB''}\<rparr>"
    by (simp add: server_AB_sockets)
  have m: "''sA'' \<in> fst ` set (sockets server_AB)"
    by (simp add: server_AB_sockets)
  have u: "\<forall>p \<in> set (onlineUsers server_AB).
      fst p \<noteq> ''sB'' \<longrightarrow> snd p \<noteq> \<lparr>userId = JStr ''B'', name = JStr ''Bob''\<rparr>"
    by (simp add: server_AB_sockets)
  have p: "listOnline (deregister ''sB'' (onlineUsers server_AB)) =
      [\<lparr>userId = JStr ''A'', name = JUndefined\<rparr>]"
    by (simp add: server_AB_sockets listOnline_def deregister_def)
  from presence_change_broadcasts_snapshot
    [where verify = verify_ex and sid = "''sB''" and address = "''10.0.0.2''"
      and authHeader = "JStr ''tokB''" and l = "LogAuthenticated (JStr ''B'') ''sB''"
      and u = userB and s = server_AB and sidB = "''sB''"
      and sk = "\<lparr>user = userB, rooms = {''sB''}\<rparr>" and reason = "''transport close''"
      and e = "\<lparr>userId = JStr ''B'', name = JStr ''Bob''\<rparr>", THEN conjunct2, rule_format, OF c]
  obtain s' where st: "step verify_ex (Disconnect ''sB'' ''transport close'') server_AB = Inr s'"
    and rem: "\<forall>a \<in> fst ` set (sockets server_AB). a \<noteq> ''sB'' \<longrightarrow>
            (a, OnlineUsers (listOnline (deregister ''sB'' (onlineUsers server_AB))))
              \<in> set (delivered server_AB s')"
    and ex: "(\<forall>p \<in> set (onlineUsers server_AB).
        fst p \<noteq> ''sB'' \<longrightarrow> snd p \<noteq> \<lparr>userId = JStr ''B'', name = JStr ''Bob''\<rparr>) \<longrightarrow>
      \<lparr>userId = JStr ''B'', name = JStr ''Bob''\<rparr> \<notin> set (listOnline (onlineUsers s'))"
    by blast
  have neq: "''sA'' \<noteq> ''sB''" by simp
  have 1: "(''sA'', OnlineUsers [\<lparr>userId = JStr ''A'', name = JUndefined\<rparr>])
      \<in> set (delivered server_AB s')"
    using rem [rule_format, OF m neq] by (simp only: p)
  have 2: "\<lparr>userId = JStr ''B'', name = JStr ''Bob''\<rparr> \<notin> set (listOnline (onlineUsers s'))"
    using ex u by blast
  have 3: "\<exists>s'. step verify_ex (Handshake ''sB'' ''10.0.0.2'' (JStr ''tokB'')) server_AB = Inr s' \<and>
      delivered server_AB s' =
        map (\<lambda>i. (i, OnlineUsers (listOnline (onlineUsers s')))) (map fst (sockets s'))"
    using presence_change_broadcasts_snapshot
      [where verify = verify_ex and sid = "''sB''" and address = "''10.0.0.2''"
        and authHeader = "JStr ''tokB''" and l = "LogAuthenticated (JStr ''B'') ''sB''"
        and u = userB and s = server_AB, THEN conjunct1, rule_format, OF a]
    by blast
  have o: "onlineUsers server_AB =
     [(''sA'', \<lparr>userId = JStr ''A'', name = JUndefined\<rparr>),
      (''sB'', \<lparr>userId = JStr ''B'', name = JStr ''Bob''\<rparr>)]"
    by (simp add: server_AB_sockets)
  show ?thesis using a c m o st 1 2 3 by blast
qed

lemma run_append: "run verify (xs @ ys) s = run verify ys (run verify xs s)"
  by (induction xs arbitrary: s) auto

lemma map_of_update_rooms_aux:
  "map_of (map (\<lambda>p. if fst p = c then (fst p, (snd p)\<lparr>rooms := f (rooms (snd p))\<rparr>) else p) al) i =
     (if i = c then map_option (\<lambda>sk. sk\<lparr>rooms := f (rooms sk)\<rparr>) (map_of al c)
      else map_of al i)"
  by (induction al) auto

lemma map_fst_update_rooms_aux:
  "map fst (map (\<lambda>p. if fst p = c then (fst p, g (snd p)) else p) al) = map fst al"
  by (induction al) auto

lemma socket_ids_update_rooms:
  "map fst (sockets (update_rooms c f s)) = map fst (sockets s)"
  unfolding update_rooms_def
  using map_fst_update_rooms_aux [where g = "\<lambda>sk. sk\<lparr>rooms := f (rooms sk)\<rparr>"]
  by simp

lemma connected_iff: "connected i s \<longleftrightarrow> i \<in> set (map fst (sockets s))"
  by (simp add: connected_def)

lemma connected_map_of: "connected i s \<longleftrightarrow> map_of (sockets s) i \<noteq> None"
  by (simp add: connected_def map_of_eq_None_iff)

lemma connected_update_rooms [simp]: "connected i (update_rooms c f s) = connected i s"
  by (simp only: connected_iff socket_ids_update_rooms)

lemma connected_logger [simp]: "connected i (logger l s) = connected i s"
  by (simp add: connected_def logger_def)

lemma rooms_of_update_rooms:
  "rooms_of i (update_rooms c f s) =
     (if i = c \<and> connected c s then f (rooms_of c s) else rooms_of i s)"
proof -
  have "map_of (sockets (update_rooms c f s)) i =
      (if i = c then map_option (\<lambda>sk. sk\<lparr>rooms := f (rooms sk)\<rparr>) (map_of (sockets s) c)
       else map_of (sockets s) i)"
    by (simp add: update_rooms_def map_of_update_rooms_aux)
  then show ?thesis
    by (auto simp: rooms_of_def connected_map_of split: option.splits)
qed

lemma rooms_of_logger [simp]: "rooms_of i (logger l s) = rooms_of i s"
  by (simp add: rooms_of_def logger_def)

lemma join_step:
  assumes v: "js_to_string v = Inr str"
  shows "run verify [FromClient c (join_event ns v)] s =
     (if connected c s
      then logger (case ns of ProjectRoom \<Rightarrow> LogJoinRoom (decoded_id (user (the (map_of (sockets s) c)))) (topic ns str)
                   | UserRoom \<Rightarrow> LogJoinPersonal (decoded_id (user (the (map_of (sockets s) c)))) (topic ns str))
             (update_rooms c (insert (topic ns str)) s)
      else s)"
  using v
  by (cases ns)
    (auto simp: on_joinProject_def on_joinUser_def socket_join_def Let_def connected_map_of
      split: option.splits)

lemma leave_step:
  assumes v: "js_to_string v = Inr str"
  shows "run verify [FromClient c (leave_event ns v)] s =
     (if connected c s
      then logger (case ns of ProjectRoom \<Rightarrow> LogLeaveRoom (decoded_id (user (the (map_of (sockets s) c)))) (topic ns str)
                   | UserRoom \<Rightarrow> LogLeavePersonal (decoded_id (user (the (map_of (sockets s) c)))) (topic ns str))
             (update_rooms c (\<lambda>rs. rs - {topic ns str}) s)
      else s)"
  using v
  by (cases ns)
    (auto simp: on_leaveProject_def on_leaveUser_def socket_leave_def Let_def connected_map_of
      split: option.splits)

lemma rooms_of_not_connected: "\<not> connected c s \<Longrightarrow> rooms_of c s = {}"
  by (simp add: rooms_of_def connected_map_of)

lemma rooms_of_join_step:
  "js_to_string v = Inr str \<Longrightarrow>
   rooms_of i (run verify [FromClient c (join_event ns v)] s) =
     (if i = c \<and> connected c s then insert (topic ns str) (rooms_of c s) else rooms_of i s)"
  by (simp only: join_step) (simp add: rooms_of_update_rooms)

lemma rooms_of_leave_step:
  "js_to_string v = Inr str \<Longrightarrow>
   rooms_of i (run verify [FromClient c (leave_event ns v)] s) =
     (if i = c then rooms_of c s - {topic ns str} else rooms_of i s)"
  by (simp only: leave_step) (auto simp: rooms_of_update_rooms rooms_of_not_connected)

lemma connected_join_step:
  "js_to_string v = Inr str \<Longrightarrow>
   connected i (run verify [FromClient c (join_event ns v)] s) = connected i s"
  by (simp only: join_step) simp

text \<open>
  A room event whose payload does not coerce to a string (a JSON object with a property
  of its own named \<^verbatim>\<open>toString\<close>) throws out of its listener, with nothing joined or
  left.
\<close>

lemma room_event_uncoercible_throws:
  assumes c: "map_of (sockets s) c = Some sk" and v: "js_to_string v = Inl e"
  shows "step verify (FromClient c (join_event ns v)) s = Inl e"
    and "step verify (FromClient c (leave_event ns v)) s = Inl e"
  using c v
  by (cases ns; simp add: on_joinProject_def on_joinUser_def on_leaveProject_def
      on_leaveUser_def)+

text \<open>
  Claim C8. Topic membership is a set. For every connection \<open>c\<close> and every topic, in
  either namespace, named by a payload \<open>v\<close> that coerces to a string: a join puts a
  connected socket into the room; a second join of the same topic leaves every socket's
  rooms as the first join left them; leaving a topic the connection is not in leaves
  every socket's rooms as they were; and after any number of joins followed by one
  leave the connection is not in the room.
\<close>

theorem topic_membership_is_a_set:
  "js_to_string v = Inr str \<longrightarrow>
   (connected c s \<longrightarrow>
      topic ns str \<in> rooms_of c (run verify [FromClient c (join_event ns v)] s)) \<and>
   rooms_of i (run verify [FromClient c (join_event ns v), FromClient c (join_event ns v)] s) =
     rooms_of i (run verify [FromClient c (join_event ns v)] s) \<and>
   (topic ns str \<notin> rooms_of c s \<longrightarrow>
      rooms_of i (run verify [FromClient c (leave_event ns v)] s) = rooms_of i s) \<and>
   topic ns str \<notin> rooms_of c
     (run verify (replicate n (FromClient c (join_event ns v)) @
                  [FromClient c (leave_event ns v)]) s)"
proof
  assume v: "js_to_string v = Inr str"
  have twice: "rooms_of i (run verify [FromClient c (join_event ns v),
        FromClient c (join_event ns v)] s) =
      rooms_of i (run verify [FromClient c (join_event ns v)] s)"
  proof -
    let ?s1 = "run verify [FromClient c (join_event ns v)] s"
    have conn: "connected c ?s1 = connected c s"
      by (rule connected_join_step [OF v])
    have "run verify [FromClient c (join_event ns v), FromClient c (join_event ns v)] s =
        run verify [FromClient c (join_event ns v)] ?s1"
      using run_append [of verify "[FromClient c (join_event ns v)]"
          "[FromClient c (join_event ns v)]" s] by simp
    then show ?thesis
      by (simp only: rooms_of_join_step [OF v] conn) simp
  qed
  have last: "topic ns str \<notin> rooms_of c
     (run verify (replicate n (FromClient c (join_event ns v)) @
                  [FromClient c (leave_event ns v)]) s)"
    by (simp only: run_append rooms_of_leave_step [OF v]) simp
  show "(connected c s \<longrightarrow>
      topic ns str \<in> rooms_of c (run verify [FromClient c (join_event ns v)] s)) \<and>
   rooms_of i (run verify [FromClient c (join_event ns v), FromClient c (join_event ns v)] s) =
     rooms_of i (run verify [FromClient c (join_event ns v)] s) \<and>
   (topic ns str \<notin> rooms_of c s \<longrightarrow>
      rooms_of i (run verify [FromClient c (leave_event ns v)] s) = rooms_of i s) \<and>
   topic ns str \<notin> rooms_of c
     (run verify (replicate n (FromClient c (join_event ns v)) @
                  [FromClient c (leave_event ns v)]) s)"
    using twice last
    by (simp add: rooms_of_join_step [OF v] rooms_of_leave_step [OF v] del: run.simps)
qed

lemma server_AB_42_sockets:
  "sockets server_AB_42 =
     [(''sA'', \<lparr>user = userA, rooms = {''project:42'', ''sA''}\<rparr>),
      (''sB'', \<lparr>user = userB, rooms = {''project:42'', ''sB''}\<rparr>)]"
  by (simp add: server_AB_42_def server_AB_sockets on_joinProject_def socket_join_def
      update_rooms_def logger_def Let_def)

theorem topic_membership_is_a_set_witness:
  "js_to_string (JStr ''42'') = Inr ''42'' \<and>
   connected ''sA'' server_AB \<and>
   ''project:42'' \<notin> rooms_of ''sA'' server_AB \<and>
   ''project:42'' \<in> rooms_of ''sA''
      (run verify_ex [FromClient ''sA'' (JoinProject (JStr ''42''))] server_AB) \<and>
   rooms_of ''sB'' (run verify_ex [FromClient ''sA'' (LeaveProject (JStr ''42''))] server_AB) =
      {''sB''} \<and>
   ''project:42'' \<notin> rooms_of ''sA''
      (run verify_ex [FromClient ''sA'' (JoinProject (JStr ''42'')),
                      FromClient ''sA'' (JoinProject (JStr ''42'')),
                      FromClient ''sA'' (LeaveProject (JStr ''42''))] server_AB)"
proof -
  have c: "connected ''sA'' server_AB"
    by (simp add: connected_def server_AB_sockets)
  have r: "''project:42'' \<notin> rooms_of ''sA'' server_AB" "rooms_of ''sB'' server_AB = {''sB''}"
    by (simp_all add: rooms_of_def server_AB_sockets)
  from topic_membership_is_a_set
    [where s = server_AB and c = "''sA''" and ns = ProjectRoom and v = "JStr ''42''"
      and str = "''42''" and verify = verify_ex and i = "''sB''" and n = 2]
  show ?thesis using c r by (simp add: numeral_2_eq_2 del: run.simps)
qed

lemma typing_steps:
  assumes c: "map_of (sockets s) c = Some sk"
    and p: "destructure ''roomId'' payload = Inr roomId"
    and r: "js_to_string roomId = Inr str"
  shows "step verify (FromClient c (StartTyping payload)) s =
           Inr (socket_to_emit c roomId
                  (UserTyping (decoded_id (user sk)) (decoded_name (user sk)) roomId)
                  (logger (LogTypingStarted (decoded_id (user sk)) roomId) s))"
    and "step verify (FromClient c (StopTyping payload)) s =
           Inr (socket_to_emit c roomId (UserStoppedTyping (decoded_id (user sk)) roomId)
                  (logger (LogTypingStopped (decoded_id (user sk)) roomId) s))"
  using c p r by (simp_all add: on_startTyping_def on_stopTyping_def)

lemma socket_to_emit_fields:
  "outbox (socket_to_emit c r ev (logger l s)) =
     outbox s @ map (\<lambda>i. (i, ev)) (socket_to_members c r s)"
  "sockets (socket_to_emit c r ev (logger l s)) = sockets s"
  "onlineUsers (socket_to_emit c r ev (logger l s)) = onlineUsers s"
  "logs (socket_to_emit c r ev (logger l s)) = logs s @ [l]"
  by (cases r; simp add: socket_to_emit_def logger_def room_members_def)+

text \<open>
  Claim C6. For every connected socket \<open>c\<close> and topic \<open>t\<close>, a \<open>startTyping\<close> event
  whose payload names \<open>t\<close> delivers \<open>userTyping\<close> with the sender's user id, its display
  name and the topic to the members of \<open>t\<close> other than \<open>c\<close>, and to nobody else;
  \<open>stopTyping\<close> delivers \<open>userStoppedTyping\<close> with the user id and the topic, without
  the name, to the same sockets. The sender is never among the receivers, and when it
  is the only member of \<open>t\<close> nothing is delivered.
\<close>

theorem typing_relay_excludes_sender:
  "map_of (sockets s) c = Some sk \<and> destructure ''roomId'' payload = Inr (JStr t) \<longrightarrow>
   (\<exists>s1 s2.
      step verify (FromClient c (StartTyping payload)) s = Inr s1 \<and>
      step verify (FromClient c (StopTyping payload)) s = Inr s2 \<and>
      delivered s s1 =
        map (\<lambda>i. (i, UserTyping (decoded_id (user sk)) (decoded_name (user sk)) (JStr t)))
          (filter (\<lambda>i. i \<noteq> c) (room_members t s)) \<and>
      delivered s s2 =
        map (\<lambda>i. (i, UserStoppedTyping (decoded_id (user sk)) (JStr t)))
          (filter (\<lambda>i. i \<noteq> c) (room_members t s)) \<and>
      fst ` set (delivered s s1) = set (room_members t s) - {c} \<and>
      fst ` set (delivered s s2) = set (room_members t s) - {c} \<and>
      (set (room_members t s) \<subseteq> {c} \<longrightarrow> delivered s s1 = [] \<and> delivered s s2 = []))"
proof
  assume a: "map_of (sockets s) c = Some sk \<and> destructure ''roomId'' payload = Inr (JStr t)"
  then have c: "map_of (sockets s) c = Some sk" and p: "destructure ''roomId'' payload = Inr (JStr t)"
    by simp_all
  let ?ev1 = "UserTyping (decoded_id (user sk)) (decoded_name (user sk)) (JStr t)"
  let ?ev2 = "UserStoppedTyping (decoded_id (user sk)) (JStr t)"
  let ?rc = "filter (\<lambda>i. i \<noteq> c) (room_members t s)"
  define s1 where "s1 = socket_to_emit c (JStr t) ?ev1
      (logger (LogTypingStarted (decoded_id (user sk)) (JStr t)) s)"
  define s2 where "s2 = socket_to_emit c (JStr t) ?ev2
      (logger (LogTypingStopped (decoded_id (user sk)) (JStr t)) s)"
  have st1: "step verify (FromClient c (StartTyping payload)) s = Inr s1"
    and st2: "step verify (FromClient c (StopTyping payload)) s = Inr s2"
    unfolding s1_def s2_def using typing_steps [OF c p, of t] by simp_all
  have d1: "delivered s s1 = map (\<lambda>i. (i, ?ev1)) ?rc"
    and d2: "delivered s s2 = map (\<lambda>i. (i, ?ev2)) ?rc"
    by (simp_all add: s1_def s2_def socket_to_emit_fields)
  have r1: "fst ` set (delivered s s1) = set (room_members t s) - {c}"
    and r2: "fst ` set (delivered s s2) = set (room_members t s) - {c}"
    unfolding d1 d2 by force+
  have only: "?rc = []" if "set (room_members t s) \<subseteq> {c}"
    using that by (auto simp: filter_empty_conv)
  from st1 st2 d1 d2 r1 r2 only
  show "\<exists>s1 s2.
      step verify (FromClient c (StartTyping payload)) s = Inr s1 \<and>
      step verify (FromClient c (StopTyping payload)) s = Inr s2 \<and>
      delivered s s1 = map (\<lambda>i. (i, ?ev1)) ?rc \<and>
      delivered s s2 = map (\<lambda>i. (i, ?ev2)) ?rc \<and>
      fst ` set (delivered s s1) = set (room_members t s) - {c} \<and>
      fst ` set (delivered s s2) = set (room_members t s) - {c} \<and>
      (set (room_members t s) \<subseteq> {c} \<longrightarrow> delivered s s1 = [] \<and> delivered s s2 = [])"
    by (intro exI [of _ s1] exI [of _ s2]) simp
qed

theorem typing_relay_excludes_sender_witness:
  "map_of (sockets server_AB_42) ''sA'' = Some \<lparr>user = userA, rooms = {''project:42'', ''sA''}\<rparr> \<and>
   destructure ''roomId'' (JObj [(''roomId'', JStr ''project:42'')]) = Inr (JStr ''project:42'') \<and>
   (\<exists>s1. step verify_ex
          (FromClient ''sA'' (StartTyping (JObj [(''roomId'', JStr ''project:42'')]))) server_AB_42
        = Inr s1 \<and>
      delivered server_AB_42 s1 =
        [(''sB'', UserTyping (JStr ''A'') JUndefined (JStr ''project:42''))])"
proof -
  have c: "map_of (sockets server_AB_42) ''sA'' =
      Some \<lparr>user = userA, rooms = {''project:42'', ''sA''}\<rparr>"
    by (simp add: server_AB_42_sockets)
  have p: "destructure ''roomId'' (JObj [(''roomId'', JStr ''project:42'')]) =
      Inr (JStr ''project:42'')"
    by simp
  have m: "filter (\<lambda>i. i \<noteq> ''sA'') (room_members ''project:42'' server_AB_42) = [''sB'']"
    by (simp add: room_members_def server_AB_42_sockets)
  from typing_relay_excludes_sender
    [where s = server_AB_42 and c = "''sA''" and verify = verify_ex
      and sk = "\<lparr>user = userA, rooms = {''project:42'', ''sA''}\<rparr>"
      and payload = "JObj [(''roomId'', JStr ''project:42'')]" and t = "''project:42''",
      rule_format, OF conjI [OF c p]]
  obtain s1 where "step verify_ex
          (FromClient ''sA'' (StartTyping (JObj [(''roomId'', JStr ''project:42'')]))) server_AB_42
        = Inr s1"
    and "delivered server_AB_42 s1 =
        map (\<lambda>i. (i, UserTyping (decoded_id (user \<lparr>user = userA, rooms = {''project:42'', ''sA''}\<rparr>))
               (decoded_name (user \<lparr>user = userA, rooms = {''project:42'', ''sA''}\<rparr>))
               (JStr ''project:42'')))
          (filter (\<lambda>i. i \<noteq> ''sA'') (room_members ''project:42'' server_AB_42))"
    by blast
  then show ?thesis using c p by (simp add: m userA_def)
qed

text \<open>
  A typing event whose payload has no \<^verbatim>\<open>roomId\<close> (an object without the field, or a
  primitive) is logged and reaches nobody; the sockets and the registry stay as they are.
\<close>

lemma typing_without_roomId_dropped:
  assumes c: "map_of (sockets s) c = Some sk"
    and p: "destructure ''roomId'' payload = Inr JUndefined"
  shows "\<exists>s'. step verify (FromClient c (StartTyping payload)) s = Inr s' \<and>
           outbox s' = outbox s \<and> sockets s' = sockets s \<and> onlineUsers s' = onlineUsers s \<and>
           logs s' = logs s @ [LogTypingStarted (decoded_id (user sk)) JUndefined]"
proof -
  have r: "js_to_string JUndefined = Inr ''undefined''" by simp
  show ?thesis
    by (simp only: typing_steps(1) [OF c p r]) (simp add: socket_to_emit_fields)
qed

text \<open>
  Claim C9 says that a malformed inbound event payload is logged and dropped and the
  connection stays active. A \<^verbatim>\<open>startTyping\<close> or \<^verbatim>\<open>stopTyping\<close> event sent with no
  payload at all (or with \<^verbatim>\<open>null\<close>) is not: the listener's parameter destructuring
  throws a \<^verbatim>\<open>TypeError\<close> before the listener logs anything, and nothing in
  \<^verbatim>\<open>socket.js\<close> catches it. Here A, connected, sends such events.
\<close>

theorem typing_without_payload_throws:
  "step verify_ex (FromClient ''sA'' (StartTyping JUndefined)) server_AB =
     Inl (TypeError ''Cannot destructure property roomId of undefined'') \<and>
   step verify_ex (FromClient ''sA'' (StopTyping JNull)) server_AB =
     Inl (TypeError ''Cannot destructure property roomId of null'')"
  by (simp add: server_AB_sockets on_startTyping_def on_stopTyping_def)

section \<open>Properties of the services\<close>

lemma persisted_console [simp]: "persisted (w\<lparr>console := c\<rparr>) = persisted w"
  by (simp add: persisted_def)

lemma persisted_io [simp]: "persisted (w\<lparr>io := x\<rparr>) = persisted w"
  by (simp add: persisted_def)

lemma getIO_io [simp]: "io w = None \<Longrightarrow> isl (getIO w)"
  by (simp add: getIO_def)





















lemma assignTask_io_to:
  assumes t: "tasks w T = Some t" and p: "projects w (project t) = Some ttl"
  shows "\<exists>d w2 n. assignTask io_to T U who w =
             (Inr d, w2\<lparr>io := map_option (io_to_emit (''user:'' @ U) (NotificationNew n)) (io w)\<rparr>
                       \<lparr>console := console w @ (if io w = None then
                            [''Socket emit failed: '' @ error_message (projl (getIO w))] else [])\<rparr>) \<and>
           doc_id d = T \<and> doc_task d = t\<lparr>assignedTo := Some U\<rparr> \<and>
           doc_project d = Some \<lparr>ref_id = project t, ref_title = ttl\<rparr> \<and>
           notifications w2 = notifications w @ [n] \<and> io w2 = io w \<and>
           ntype n = ''task_assigned'' \<and> recipient n = U \<and> relatedTask n = Some T \<and>
           relatedProject n = Some (project t) \<and> isRead n = False"
proof -
  define w1 where "w1 = w\<lparr>tasks := (tasks w)(T \<mapsto> t\<lparr>assignedTo := Some U\<rparr>)\<rparr>"
  define d where "d = \<lparr>doc_id = T, doc_task = t\<lparr>assignedTo := Some U\<rparr>,
      doc_project = Some \<lparr>ref_id = project t, ref_title = ttl\<rparr>\<rparr>"
  define n where "n = \<lparr>notificationId = Suc (counters w ''notificationId''),
      message = ''You have been assigned to task: '' @ [CHR 0x22] @ title t @ [CHR 0x22],
      ntype = ''task_assigned'', recipient = U, relatedTask = Some T,
      relatedProject = Some (project t), isRead = False\<rparr>"
  define w2 where "w2 = w1\<lparr>counters := (counters w)(''notificationId'' := Suc (counters w ''notificationId'')),
      notifications := notifications w @ [n]\<rparr>"
  have f: "Task_findByIdAndUpdate T (\<lambda>t. t\<lparr>assignedTo := Some U\<rparr>) w = (Some d, w1)"
    using t p by (simp add: Task_findByIdAndUpdate_def populate_project_def Let_def w1_def d_def)
  have c: "Notification_create
      (''You have been assigned to task: '' @ [CHR 0x22] @ title (doc_task d) @ [CHR 0x22])
      ''task_assigned'' U (Some T) (Some (project t)) w1 = Inr (n, w2)"
    by (simp add: Notification_create_def notification_type_enum_def getNextSequence_def
        Let_def w1_def w2_def n_def d_def)
  have io2: "io w2 = io w" "console w2 = console w"
    by (simp_all add: w2_def w1_def)
  have "assignTask io_to T U who w =
      (Inr d, w2\<lparr>io := map_option (io_to_emit (''user:'' @ U) (NotificationNew n)) (io w)\<rparr>
                 \<lparr>console := console w @ (if io w = None then
                      [''Socket emit failed: '' @ error_message (projl (getIO w))] else [])\<rparr>)"
    unfolding assignTask_def f using c io2
    by (cases "io w")
      (simp_all add: d_def emit_notification_def getIO_def io_to_def catch_warn_def)
  then show ?thesis
    by (intro exI [of _ d] exI [of _ w2] exI [of _ n]) (simp add: d_def n_def w2_def w1_def)
qed

lemma assignTask_succeeds:
  "assignTask to_emit T U who w = (Inr d, w') \<Longrightarrow>
   \<exists>t ttl. tasks w T = Some t \<and> projects w (project t) = Some ttl"
  by (auto simp: assignTask_def Task_findByIdAndUpdate_def populate_project_def Let_def
      split: option.splits sum.splits prod.splits)

lemma updateTaskStatus_emits:
  assumes r: "updateTaskStatus to_emit T st who w = (Inr d, w')"
  shows "notifications w' = notifications w \<and> doc_id d = T \<and> status (doc_task d) = st \<and>
         (\<forall>p. doc_project d = Some p \<longrightarrow> ref_id p = project (doc_task d)) \<and>
         (io w = None \<longrightarrow> io w' = None) \<and>
         (\<forall>srv. io w = Some srv \<longrightarrow>
            io w' = Some (case doc_project d of
                            None \<Rightarrow> srv
                          | Some p \<Rightarrow>
                              (case to_emit (''project:'' @ ref_id p)
                                      (TaskUpdated T st (user_name who) d) srv of
                                 Inl e \<Rightarrow> srv
                               | Inr srv' \<Rightarrow> srv')))"
  using r
  by (auto simp: updateTaskStatus_def Task_findByIdAndUpdate_def populate_project_def Let_def
      emit_task_updated_def getIO_def catch_warn_def
      split: option.splits sum.splits prod.splits if_splits)

lemma addComment_io_to:
  assumes r: "addComment io_to T cont a w = (Inr c, w')"
  shows "notifications w' = notifications w \<and> comments w' = comments w @ [c] \<and>
         comment_task c = T \<and> 
         (io w = None \<longrightarrow> io w' = None) \<and>
         (\<forall>srv. io w = Some srv \<longrightarrow>
            io w' = Some (case tasks w T of
                            None \<Rightarrow> srv
                          | Some t \<Rightarrow> io_to_emit (''project:'' @ project t) (CommentNew T c) srv))"
  using r
  by (auto simp: addComment_def Comment_create_def getNextSequence_def Let_def
      emit_comment_def getIO_def io_to_def catch_warn_def
      split: option.splits sum.splits prod.splits if_splits)

text \<open>
  Claim C1 says that every successful \<open>assignTask\<close> emits \<open>notification:new\<close> and every
  successful \<open>addComment\<close> broadcasts \<open>comment:new\<close>. Two successful calls that emit
  nothing: a comment on a task id that is not in the store (the guard
  \<^verbatim>\<open>if (task)\<close> skips the broadcast; the server is left as it was, nothing logged),
  and an assignment made before \<^verbatim>\<open>initSocket\<close> (\<^verbatim>\<open>getIO\<close> throws inside the
  \<^verbatim>\<open>try\<close>; the Notification is persisted, the failure logged).
\<close>

theorem fan_out_without_broadcast_counterexample:
  "fst (addComment io_to ''T9'' ''hello'' ''A'' world_ex) =
     Inr \<lparr>commentId = Suc 0, content = ''hello'', comment_task = ''T9'', author = ''A''\<rparr> \<and>
   io (snd (addComment io_to ''T9'' ''hello'' ''A'' world_ex)) = Some server_live \<and>
   console (snd (addComment io_to ''T9'' ''hello'' ''A'' world_ex)) = [] \<and>
   fst (assignTask io_to ''T1'' ''B'' caller (world_ex\<lparr>io := None\<rparr>)) =
     Inr \<lparr>doc_id = ''T1'', doc_task = task_T1\<lparr>assignedTo := Some ''B''\<rparr>,
          doc_project = Some \<lparr>ref_id = ''P1'', ref_title = ''Launch''\<rparr>\<rparr> \<and>
   length (notifications (snd (assignTask io_to ''T1'' ''B'' caller (world_ex\<lparr>io := None\<rparr>)))) =
     Suc 0 \<and>
   io (snd (assignTask io_to ''T1'' ''B'' caller (world_ex\<lparr>io := None\<rparr>))) = None \<and>
   console (snd (assignTask io_to ''T1'' ''B'' caller (world_ex\<lparr>io := None\<rparr>))) =
     [''Socket emit failed: Socket.IO has not been initialized yet! Call initSocket(httpServer) first.'']"
  by (simp add: addComment_def Comment_create_def trim_def is_space_def getNextSequence_def
      emit_comment_def catch_warn_def assignTask_def Task_findByIdAndUpdate_def
      populate_project_def Notification_create_def notification_type_enum_def
      emit_notification_def getIO_def world_ex_def task_T1_def Let_def)

text \<open>
  The broadcast of \<open>updateTaskStatus\<close> is lost in another way, which is a slip and not
  a design: whenever the task's project exists, serialising the payload throws
  (\<open>memberCount\<close>), the \<^verbatim>\<open>catch\<close> logs it and nothing is delivered, although the room
  has members.
\<close>

lemma updateTaskStatus_broadcast_lost:
  "fst (updateTaskStatus io_to ''T1'' ''done'' caller world_ex) =
     Inr \<lparr>doc_id = ''T1'', doc_task = task_T1\<lparr>status := ''done''\<rparr>,
          doc_project = Some \<lparr>ref_id = ''P1'', ref_title = ''Launch''\<rparr>\<rparr> \<and>
   io (snd (updateTaskStatus io_to ''T1'' ''done'' caller world_ex)) = Some server_live \<and>
   console (snd (updateTaskStatus io_to ''T1'' ''done'' caller world_ex)) =
     [''Socket emit failed: Cannot read properties of undefined (reading length)'']"
  by (simp add: updateTaskStatus_def status_enum_def Task_findByIdAndUpdate_def
      populate_project_def emit_task_updated_def getIO_def io_to_def memberCount_def
      catch_warn_def world_ex_def task_T1_def Let_def)

text \<open>
  Claim C1 as amended. Every successful \<open>assignTask\<close> of task \<open>T\<close> (in project
  \<open>project t\<close>) to user \<open>U\<close> appends one Notification with type \<open>task_assigned\<close>,
  recipient \<open>U\<close>, relatedTask \<open>T\<close>, relatedProject the task's project and \<open>isRead\<close>
  false, and, when Socket.IO has been initialised, leaves the server as
  \<^verbatim>\<open>io.to("user:U").emit("notification:new", n)\<close> makes it. Every successful
  \<open>updateTaskStatus\<close> and \<open>addComment\<close> leaves the notifications as they were. A
  successful \<open>addComment\<close> leaves the server as the broadcast of \<open>comment:new\<close> to the
  room of the task's project makes it when Socket.IO has been initialised and the task
  is in the store, and untouched otherwise. A successful \<open>updateTaskStatus\<close> hands the
  broadcaster, whatever it is, one event and no more: \<open>task:updated\<close> for the room of
  the task's project, when Socket.IO has been initialised and the project is in the
  store; the server changes only as that emit changes it. Whether the emit delivers is
  not part of the statement.
\<close>

theorem notification_fan_out_rules:
  "(assignTask io_to T U who w = (Inr d1, w1) \<longrightarrow>
      (\<exists>t n. tasks w T = Some t \<and> notifications w1 = notifications w @ [n] \<and>
         ntype n = ''task_assigned'' \<and> recipient n = U \<and> relatedTask n = Some T \<and>
         relatedProject n = Some (project t) \<and> isRead n = False \<and>
         event_name (NotificationNew n) = ''notification:new'' \<and>
         io w1 = map_option (io_to_emit (''user:'' @ U) (NotificationNew n)) (io w))) \<and>
   (updateTaskStatus to_emit T st who w = (Inr d2, w2) \<longrightarrow>
      notifications w2 = notifications w \<and>
      event_name (TaskUpdated T st (user_name who) d2) = ''task:updated'' \<and>
      (\<forall>p. doc_project d2 = Some p \<longrightarrow> ref_id p = project (doc_task d2)) \<and>
      io w2 = map_option
        (\<lambda>srv. case doc_project d2 of
                 None \<Rightarrow> srv
               | Some p \<Rightarrow>
                   (case to_emit (''project:'' @ ref_id p)
                           (TaskUpdated T st (user_name who) d2) srv of
                      Inl e \<Rightarrow> srv
                    | Inr srv' \<Rightarrow> srv')) (io w)) \<and>
   (addComment io_to T cont a w = (Inr c, w3) \<longrightarrow>
      notifications w3 = notifications w \<and>
      event_name (CommentNew T c) = ''comment:new'' \<and>
      io w3 = map_option
        (\<lambda>srv. case tasks w T of
                 None \<Rightarrow> srv
               | Some t \<Rightarrow> io_to_emit (''project:'' @ project t) (CommentNew T c) srv) (io w))"
proof -
  have assign: "\<exists>t n. tasks w T = Some t \<and> notifications w1 = notifications w @ [n] \<and>
         ntype n = ''task_assigned'' \<and> recipient n = U \<and> relatedTask n = Some T \<and>
         relatedProject n = Some (project t) \<and> isRead n = False \<and>
         event_name (NotificationNew n) = ''notification:new'' \<and>
         io w1 = map_option (io_to_emit (''user:'' @ U) (NotificationNew n)) (io w)"
    if r: "assignTask io_to T U who w = (Inr d1, w1)"
  proof -
    from assignTask_succeeds [OF r] obtain t ttl
      where t: "tasks w T = Some t" and p: "projects w (project t) = Some ttl" by blast
    from assignTask_io_to [OF t p, of U who] r obtain d w2 n where
      w1: "w1 = w2\<lparr>io := map_option (io_to_emit (''user:'' @ U) (NotificationNew n)) (io w)\<rparr>
                 \<lparr>console := console w @ (if io w = None then
                      [''Socket emit failed: '' @ error_message (projl (getIO w))] else [])\<rparr>"
      and n: "notifications w2 = notifications w @ [n]" "ntype n = ''task_assigned''"
        "recipient n = U" "relatedTask n = Some T" "relatedProject n = Some (project t)"
        "isRead n = False"
      by auto
    show ?thesis
      by (intro exI [of _ t] exI [of _ n]) (simp add: t n w1)
  qed
  have update: "notifications w2 = notifications w \<and>
      event_name (TaskUpdated T st (user_name who) d2) = ''task:updated'' \<and>
      (\<forall>p. doc_project d2 = Some p \<longrightarrow> ref_id p = project (doc_task d2)) \<and>
      io w2 = map_option
        (\<lambda>srv. case doc_project d2 of
                 None \<Rightarrow> srv
               | Some p \<Rightarrow>
                   (case to_emit (''project:'' @ ref_id p)
                           (TaskUpdated T st (user_name who) d2) srv of
                      Inl e \<Rightarrow> srv
                    | Inr srv' \<Rightarrow> srv')) (io w)"
    if r: "updateTaskStatus to_emit T st who w = (Inr d2, w2)"
    using updateTaskStatus_emits [OF r] by (cases "io w") simp_all
  have comment: "notifications w3 = notifications w \<and>
      event_name (CommentNew T c) = ''comment:new'' \<and>
      io w3 = map_option
        (\<lambda>srv. case tasks w T of
                 None \<Rightarrow> srv
               | Some t \<Rightarrow> io_to_emit (''project:'' @ project t) (CommentNew T c) srv) (io w)"
    if r: "addComment io_to T cont a w = (Inr c, w3)"
    using addComment_io_to [OF r] by (cases "io w") simp_all
  from assign update comment show ?thesis by blast
qed

lemma server_live_sockets:
  "sockets server_live =
     [(''sA'', \<lparr>user = userA, rooms = {''project:P1'', ''sA''}\<rparr>),
      (''sB'', \<lparr>user = userB, rooms = {''project:P1'', ''user:B'', ''sB''}\<rparr>)]"
  by (simp add: server_live_def server_AB_sockets on_joinProject_def on_joinUser_def
      socket_join_def update_rooms_def logger_def Let_def)

lemma server_live_members:
  "room_members ''user:B'' server_live = [''sB'']"
  "room_members ''project:P1'' server_live = [''sA'', ''sB'']"
  by (simp_all add: room_members_def server_live_sockets)

theorem notification_fan_out_rules_witness:
  "\<exists>d1 w1 d2 w2 c w3 n.
     assignTask io_to ''T1'' ''B'' caller world_ex = (Inr d1, w1) \<and>
     updateTaskStatus io_to ''T1'' ''done'' caller world_ex = (Inr d2, w2) \<and>
     addComment io_to ''T1'' ''looks good'' ''A'' world_ex = (Inr c, w3) \<and>
     notifications w1 = [n] \<and> ntype n = ''task_assigned'' \<and> recipient n = ''B'' \<and>
     relatedTask n = Some ''T1'' \<and> relatedProject n = Some ''P1'' \<and> isRead n = False \<and>
     io w1 = Some (io_to_emit ''user:B'' (NotificationNew n) server_live) \<and>
     notifications w2 = [] \<and> notifications w3 = [] \<and>
     io w3 = Some (io_to_emit ''project:P1'' (CommentNew ''T1'' c) server_live) \<and>
     delivered server_live (io_to_emit ''user:B'' (NotificationNew n) server_live) =
       [(''sB'', NotificationNew n)] \<and>
     delivered server_live (io_to_emit ''project:P1'' (CommentNew ''T1'' c) server_live) =
       [(''sA'', CommentNew ''T1'' c), (''sB'', CommentNew ''T1'' c)]"
proof -
  have dl: "\<And>room ev. delivered server_live (io_to_emit room ev server_live) =
      map (\<lambda>i. (i, ev)) (room_members room server_live)"
    by (simp add: io_to_emit_def)
  have t: "tasks world_ex ''T1'' = Some task_T1"
    and p: "projects world_ex (project task_T1) = Some ''Launch''"
    by (simp_all add: world_ex_def task_T1_def)
  from assignTask_io_to [OF t p, of "''B''" caller]
  obtain d1 w1 where r1: "assignTask io_to ''T1'' ''B'' caller world_ex = (Inr d1, w1)"
    by blast
  obtain d2 w2 where r2: "updateTaskStatus io_to ''T1'' ''done'' caller world_ex = (Inr d2, w2)"
    by (simp add: updateTaskStatus_def status_enum_def Task_findByIdAndUpdate_def
        populate_project_def world_ex_def task_T1_def Let_def)
  obtain c w3 where r3: "addComment io_to ''T1'' ''looks good'' ''A'' world_ex = (Inr c, w3)"
    by (simp add: addComment_def Comment_create_def trim_def is_space_def
        getNextSequence_def Let_def)
  from notification_fan_out_rules
    [where T = "''T1''" and U = "''B''" and who = caller and w = world_ex and ?d1.0 = d1
      and ?w1.0 = w1 and st = "''done''" and ?d2.0 = d2 and ?w2.0 = w2 and to_emit = io_to
      and cont = "''looks good''" and a = "''A''" and c = c and ?w3.0 = w3]
  have "\<exists>n. notifications w1 = [n] \<and> ntype n = ''task_assigned'' \<and> recipient n = ''B'' \<and>
     relatedTask n = Some ''T1'' \<and> relatedProject n = Some ''P1'' \<and> isRead n = False \<and>
     io w1 = Some (io_to_emit ''user:B'' (NotificationNew n) server_live)"
    and "notifications w2 = [] \<and> notifications w3 = [] \<and>
     io w3 = Some (io_to_emit ''project:P1'' (CommentNew ''T1'' c) server_live)"
    using r1 r2 r3 by (auto simp: world_ex_def task_T1_def caller_def)
  with r1 r2 r3 show ?thesis by (auto simp: dl server_live_members)
qed

lemma joinUser_step:
  assumes c: "map_of (sockets srv) c = Some sk" and v: "js_to_string v = Inr str"
  shows "step verify (FromClient c (JoinUser v)) srv =
           Inr (logger (LogJoinPersonal (decoded_id (user sk)) (''user:'' @ str))
                  (update_rooms c (insert (''user:'' @ str)) srv))"
  using c v by (simp add: on_joinUser_def socket_join_def Let_def)

lemma room_members_after_join:
  assumes c: "map_of (sockets srv) c = Some sk"
  shows "c \<in> set (room_members room (logger l (update_rooms c (insert room) srv)))"
proof -
  from c have "(c, sk) \<in> set (sockets srv)" by (rule map_of_SomeD)
  then have "(c, sk\<lparr>rooms := insert room (rooms sk)\<rparr>)
      \<in> set (sockets (logger l (update_rooms c (insert room) srv)))"
    by (force simp: logger_def update_rooms_def)
  then show ?thesis
    by (force simp: room_members_def)
qed

text \<open>
  Claim C10. \<open>joinUser\<close> puts the requesting connection into the personal room
  \<open>user:<targetUserId>\<close> for any payload that coerces to a string, whoever the
  connection's authenticated user is (nothing compares the two). Hence for every
  connected socket \<open>c\<close> and every user \<open>U\<close>: once \<open>c\<close> has sent \<open>joinUser\<close> with a
  payload that reads \<open>U\<close>, an assignment of a task to \<open>U\<close> delivers the
  \<open>notification:new\<close> event, carrying the Notification addressed to \<open>U\<close>, to \<open>c\<close>.
\<close>

theorem joinUser_delivers_any_users_notifications:
  "map_of (sockets srv) c = Some sk \<and> js_to_string v = Inr U \<longrightarrow>
     (\<exists>srv1. step verify (FromClient c (JoinUser v)) srv = Inr srv1 \<and>
        rooms_of c srv1 = insert (''user:'' @ U) (rooms_of c srv) \<and>
        (\<forall>w T t ttl who.
           tasks w T = Some t \<and> projects w (project t) = Some ttl \<and> io w = Some srv1 \<longrightarrow>
             (\<exists>d w' n srv'. assignTask io_to T U who w = (Inr d, w') \<and> io w' = Some srv' \<and>
                notifications w' = notifications w @ [n] \<and> recipient n = U \<and>
                ntype n = ''task_assigned'' \<and>
                (c, NotificationNew n) \<in> set (delivered srv1 srv'))))"
proof
  assume a: "map_of (sockets srv) c = Some sk \<and> js_to_string v = Inr U"
  then have c: "map_of (sockets srv) c = Some sk" and v: "js_to_string v = Inr U"
    by simp_all
  define srv1 where "srv1 =
      logger (LogJoinPersonal (decoded_id (user sk)) (''user:'' @ U))
        (update_rooms c (insert (''user:'' @ U)) srv)"
  have st: "step verify (FromClient c (JoinUser v)) srv = Inr srv1"
    unfolding srv1_def by (rule joinUser_step [OF c v])
  have conn: "connected c srv" using c by (simp add: connected_map_of)
  have rooms: "rooms_of c srv1 = insert (''user:'' @ U) (rooms_of c srv)"
    by (simp add: srv1_def rooms_of_update_rooms conn)
  have deliver: "\<exists>d w' n srv'. assignTask io_to T U who w = (Inr d, w') \<and> io w' = Some srv' \<and>
              notifications w' = notifications w @ [n] \<and> recipient n = U \<and>
              ntype n = ''task_assigned'' \<and>
              (c, NotificationNew n) \<in> set (delivered srv1 srv')"
    if h: "tasks w T = Some t \<and> projects w (project t) = Some ttl \<and> io w = Some srv1"
    for w T t ttl who
  proof -
    from h have t: "tasks w T = Some t"
      and p: "projects w (project t) = Some ttl" and i: "io w = Some srv1" by simp_all
    from assignTask_io_to [OF t p, of U who] obtain d w2 n where
      r: "assignTask io_to T U who w =
             (Inr d, w2\<lparr>io := map_option (io_to_emit (''user:'' @ U) (NotificationNew n)) (io w)\<rparr>
                       \<lparr>console := console w @ (if io w = None then
                            [''Socket emit failed: '' @ error_message (projl (getIO w))] else [])\<rparr>)"
      and n: "notifications w2 = notifications w @ [n]" "recipient n = U"
        "ntype n = ''task_assigned''"
      by blast
    let ?srv' = "io_to_emit (''user:'' @ U) (NotificationNew n) srv1"
    have m: "c \<in> set (room_members (''user:'' @ U) srv1)"
      unfolding srv1_def using room_members_after_join [OF c] by simp
    have "delivered srv1 ?srv' =
        map (\<lambda>i. (i, NotificationNew n)) (room_members (''user:'' @ U) srv1)"
      by (simp add: io_to_emit_def)
    with m have "(c, NotificationNew n) \<in> set (delivered srv1 ?srv')" by force
    with r n i show ?thesis by simp
  qed
  from st rooms deliver
  show "\<exists>srv1. step verify (FromClient c (JoinUser v)) srv = Inr srv1 \<and>
        rooms_of c srv1 = insert (''user:'' @ U) (rooms_of c srv) \<and>
        (\<forall>w T t ttl who.
           tasks w T = Some t \<and> projects w (project t) = Some ttl \<and> io w = Some srv1 \<longrightarrow>
             (\<exists>d w' n srv'. assignTask io_to T U who w = (Inr d, w') \<and> io w' = Some srv' \<and>
                notifications w' = notifications w @ [n] \<and> recipient n = U \<and>
                ntype n = ''task_assigned'' \<and>
                (c, NotificationNew n) \<in> set (delivered srv1 srv')))"
    by (intro exI [of _ srv1] conjI allI impI) assumption+
qed

theorem joinUser_delivers_any_users_notifications_witness:
  "map_of (sockets server_AB) ''sA'' = Some \<lparr>user = userA, rooms = {''sA''}\<rparr> \<and>
   js_to_string (JStr ''B'') = Inr ''B'' \<and>
   decoded_id userA \<noteq> JStr ''B'' \<and>
   tasks world_ex ''T1'' = Some task_T1 \<and>
   projects world_ex (project task_T1) = Some ''Launch'' \<and>
   (\<exists>srv1. step verify_ex (FromClient ''sA'' (JoinUser (JStr ''B''))) server_AB = Inr srv1 \<and>
      ''user:B'' \<in> rooms_of ''sA'' srv1 \<and>
      (\<exists>d w' n srv'. assignTask io_to ''T1'' ''B'' caller (world_ex\<lparr>io := Some srv1\<rparr>) = (Inr d, w') \<and>
         io w' = Some srv' \<and> recipient n = ''B'' \<and>
         (''sA'', NotificationNew n) \<in> set (delivered srv1 srv')))"
proof -
  have c: "map_of (sockets server_AB) ''sA'' = Some \<lparr>user = userA, rooms = {''sA''}\<rparr>"
    by (simp add: server_AB_sockets)
  have v: "js_to_string (JStr ''B'') = Inr ''B''" by simp
  have i: "decoded_id userA \<noteq> JStr ''B''" by (simp add: userA_def)
  have t: "tasks world_ex ''T1'' = Some task_T1"
    and p: "projects world_ex (project task_T1) = Some ''Launch''"
    by (simp_all add: world_ex_def task_T1_def)
  from joinUser_delivers_any_users_notifications
    [where srv = server_AB and c = "''sA''" and sk = "\<lparr>user = userA, rooms = {''sA''}\<rparr>"
      and verify = verify_ex and v = "JStr ''B''" and U = "''B''", rule_format,
      OF conjI [OF c v]]
  obtain srv1 where st: "step verify_ex (FromClient ''sA'' (JoinUser (JStr ''B''))) server_AB = Inr srv1"
    and r: "rooms_of ''sA'' srv1 = insert (''user:'' @ ''B'') (rooms_of ''sA'' server_AB)"
    and a: "\<forall>w T t ttl who.
           tasks w T = Some t \<and> projects w (project t) = Some ttl \<and> io w = Some srv1 \<longrightarrow>
             (\<exists>d w' n srv'. assignTask io_to T ''B'' who w = (Inr d, w') \<and> io w' = Some srv' \<and>
                notifications w' = notifications w @ [n] \<and> recipient n = ''B'' \<and>
                ntype n = ''task_assigned'' \<and>
                (''sA'', NotificationNew n) \<in> set (delivered srv1 srv'))"
    by (elim exE conjE) (rule that; assumption)
  have m: "''user:B'' \<in> rooms_of ''sA'' srv1" using r by simp
  have "\<exists>d w' n srv'. assignTask io_to ''T1'' ''B'' caller (world_ex\<lparr>io := Some srv1\<rparr>) = (Inr d, w') \<and>
         io w' = Some srv' \<and> recipient n = ''B'' \<and>
         (''sA'', NotificationNew n) \<in> set (delivered srv1 srv')"
    using a [rule_format, of "world_ex\<lparr>io := Some srv1\<rparr>" "''T1''" task_T1 "''Launch''" caller]
      t p
    by auto
  with c v i t p st m show ?thesis by blast
qed

end
